theory Spec2Isabelle
  imports Main "HOL-Library.Sublist" "HOL-Library.Multiset"
begin

section \<open>pv-safe: the risk engine and the admission adapter\<close>

text \<open>
  A shallow embedding of \<^verbatim>\<open>internal/webhook/snapshot.go\<close> (SnapshotChecker), of the risk
  calculator (RiskCalculator: AssessNamespaceDeletion, AssessPVCDeletion, AssessPVDeletion and
  the message builders) and of the admission handler (ServeHTTP, handleAdmissionRequest,
  assessAndDecide, hasBypassLabel).

  Conventions.
  \<^item> Functions, constants and struct fields keep their Go names. A field name carries a
    prefix for its struct (\<open>pv_Name\<close>, \<open>pvc_Name\<close>, \<open>risky_Name\<close>, \<open>si_Name\<close>) where
    several structs have a field of that name, and a client call is named after its
    resource and verb (\<open>PersistentVolumes_Get\<close>).
  \<^item> A Go \<^verbatim>\<open>error\<close> is the text that \<^verbatim>\<open>%v\<close> prints for it; \<^verbatim>\<open>nil\<close> is \<open>None\<close>, and a
    function returning \<^verbatim>\<open>(T, error)\<close> returns \<open>error + T\<close> with \<open>Inl\<close> the error.
  \<^item> \<^verbatim>\<open>fmt.Sprintf\<close> with \<^verbatim>\<open>%s\<close> verbs is concatenation; \<^verbatim>\<open>%d\<close> is \<open>itoa\<close>.
  \<^item> The Kubernetes API is read-only here. Every read is a function of its arguments:
    one request sees one cluster state, and a call that fails (not found, transport,
    deadline exceeded) returns \<open>Inl\<close>.
  \<^item> The \<^verbatim>\<open>Logger.Printf\<close> calls write audit lines and return nothing that a decision
    reads; they are left out.
  \<^item> \<^verbatim>\<open>unstructured.Unstructured\<close> objects, \<^verbatim>\<open>encoding/json\<close> and the accessors
    \<^verbatim>\<open>NestedString\<close>, \<^verbatim>\<open>NestedBool\<close>, \<^verbatim>\<open>GetLabels\<close> belong to libraries outside the
    repository. An object is the record of what those accessors return on it, for the
    paths the source reads, exactly as Go returns them (value, found, err); the JSON
    decoder and encoder are parameters.
\<close>

subsection \<open>Strings\<close>

type_synonym error = string

definition sq :: string where
  "sq = [CHR 0x27]"

definition dq :: string where
  "dq = [CHR 0x22]"

definition nl :: string where
  "nl = [CHR 0x0A]"

text \<open>\<^verbatim>\<open>%d\<close> on a length: decimal digits.\<close>

fun itoa :: "nat \<Rightarrow> string" where
  "itoa n = (if n < 10 then [char_of (48 + n)]
             else itoa (n div 10) @ [char_of (48 + n mod 10)])"

declare itoa.simps [simp del]

text \<open>\<^verbatim>\<open>strings.Contains(s, sub)\<close>.\<close>

definition Contains :: "string \<Rightarrow> string \<Rightarrow> bool" where
  "Contains s sub = sublist sub s"

subsection \<open>Kubernetes objects\<close>

text \<open>
  \<^verbatim>\<open>corev1.PersistentVolumeReclaimPolicy\<close> and \<^verbatim>\<open>corev1.PersistentVolumeClaimPhase\<close> are
  string types in Go; any string can arrive from the API server.
\<close>

definition PersistentVolumeReclaimRetain :: string where
  "PersistentVolumeReclaimRetain = ''Retain''"

definition PersistentVolumeReclaimDelete :: string where
  "PersistentVolumeReclaimDelete = ''Delete''"

definition ClaimBound :: string where
  "ClaimBound = ''Bound''"

record ObjectReference =
  ref_Namespace :: string
  ref_Name :: string

record PersistentVolume =
  pv_Name :: string
  pv_PersistentVolumeReclaimPolicy :: string
  pv_ClaimRef :: "ObjectReference option"

record PersistentVolumeClaim =
  pvc_Name :: string
  pvc_Namespace :: string
  pvc_Phase :: string
  pvc_VolumeName :: string

text \<open>
  What the \<^verbatim>\<open>unstructured\<close> accessors return: \<^verbatim>\<open>(value, found, err)\<close>.
\<close>

type_synonym 'a nested = "'a \<times> bool \<times> error option"

record Unstructured =
  GetName :: string
  GetNamespace :: string
  GetCreationTimestamp :: nat
  GetLabels :: "(string \<rightharpoonup> string) option"
  spec_source_persistentVolumeClaimName :: "string nested"
  status_readyToUse :: "bool nested"
  spec_volumeSnapshotClassName :: "string nested"
  status_restoreSize :: "string nested"
  deletionPolicy :: "string nested"

text \<open>The typed client (\<^verbatim>\<open>kubernetes.Interface\<close>), as far as the source calls it.\<close>

record Clientset =
  PersistentVolumes_Get :: "string \<Rightarrow> error + PersistentVolume"
  PersistentVolumeClaims_Get :: "string \<Rightarrow> string \<Rightarrow> error + PersistentVolumeClaim"
  PersistentVolumeClaims_List :: "string \<Rightarrow> error + PersistentVolumeClaim list"

text \<open>The dynamic client (\<^verbatim>\<open>dynamic.Interface\<close>), as far as the source calls it.\<close>

record DynamicClient =
  volumesnapshots_List :: "string \<Rightarrow> error + Unstructured list"
  volumesnapshotclasses_Get :: "string \<Rightarrow> error + Unstructured"

subsection \<open>snapshot.go\<close>

definition UnknownDeletionPolicy :: string where
  "UnknownDeletionPolicy = ''Unknown''"

record SnapshotChecker =
  dynamicClient :: DynamicClient
  clientset :: Clientset

record SnapshotInfo =
  si_Name :: string
  si_Namespace :: string
  si_SourcePVC :: string
  si_IsReady :: bool
  si_DeletionPolicy :: string
  si_CreationTime :: nat
  si_RestoreSize :: string

definition getSnapshotClassDeletionPolicy :: "SnapshotChecker \<Rightarrow> string \<Rightarrow> error + string" where
  "getSnapshotClassDeletionPolicy sc className =
     (case volumesnapshotclasses_Get (dynamicClient sc) className of
        Inl err \<Rightarrow> Inl err
      | Inr class \<Rightarrow>
          (case deletionPolicy class of
             (policy, found, err) \<Rightarrow>
               if err \<noteq> None \<or> \<not> found then Inr UnknownDeletionPolicy
               else Inr policy))"

text \<open>
  The part of the loop body of \<^verbatim>\<open>HasReadySnapshot\<close> that computes \<^verbatim>\<open>deletionPolicy\<close>
  for one item.
\<close>

definition itemDeletionPolicy :: "SnapshotChecker \<Rightarrow> Unstructured \<Rightarrow> string" where
  "itemDeletionPolicy sc item =
     (case spec_volumeSnapshotClassName item of
        (snapshotClassName, found, _) \<Rightarrow>
          if found \<and> snapshotClassName \<noteq> ''''
          then (case getSnapshotClassDeletionPolicy sc snapshotClassName of
                  Inr policy \<Rightarrow> policy
                | Inl err \<Rightarrow> UnknownDeletionPolicy)
          else UnknownDeletionPolicy)"

text \<open>The part of the loop body that fills the \<^verbatim>\<open>SnapshotInfo\<close>.\<close>

definition itemInfo :: "Unstructured \<Rightarrow> string \<Rightarrow> string \<Rightarrow> SnapshotInfo" where
  "itemInfo item sourcePVC dpolicy =
     (let info = \<lparr> si_Name = GetName item,
                   si_Namespace = GetNamespace item,
                   si_SourcePVC = sourcePVC,
                   si_IsReady = True,
                   si_DeletionPolicy = dpolicy,
                   si_CreationTime = GetCreationTimestamp item,
                   si_RestoreSize = '''' \<rparr>
      in (case status_restoreSize item of
            (restoreSize, found, _) \<Rightarrow>
              if found then info\<lparr> si_RestoreSize := restoreSize \<rparr> else info))"

text \<open>
  The \<^verbatim>\<open>for _, item := range snapshots.Items\<close> loop; each \<^verbatim>\<open>continue\<close> and the fall
  through at the end of the body is the recursive call on the rest of the list.
\<close>

fun HasReadySnapshot_loop ::
  "SnapshotChecker \<Rightarrow> string \<Rightarrow> Unstructured list \<Rightarrow> bool \<times> SnapshotInfo option \<times> error option"
where
  "HasReadySnapshot_loop sc pvcName [] = (False, None, None)"
| "HasReadySnapshot_loop sc pvcName (item # items) =
     (case spec_source_persistentVolumeClaimName item of
        (sourcePVC, found, err) \<Rightarrow>
          if err \<noteq> None \<or> \<not> found \<or> sourcePVC \<noteq> pvcName
          then HasReadySnapshot_loop sc pvcName items
          else (case status_readyToUse item of
                  (ready, _, _) \<Rightarrow>
                    if \<not> ready then HasReadySnapshot_loop sc pvcName items
                    else (let dpolicy = itemDeletionPolicy sc item;
                              info = itemInfo item sourcePVC dpolicy
                          in if dpolicy = ''Retain'' then (True, Some info, None)
                             else HasReadySnapshot_loop sc pvcName items)))"

text \<open>\<^verbatim>\<open>HasReadySnapshot\<close> returns the Go triple \<^verbatim>\<open>(bool, *SnapshotInfo, error)\<close> as it is.\<close>

definition HasReadySnapshot ::
  "SnapshotChecker \<Rightarrow> string \<Rightarrow> string \<Rightarrow> bool \<times> SnapshotInfo option \<times> error option"
where
  "HasReadySnapshot sc namespace pvcName =
     (case volumesnapshots_List (dynamicClient sc) namespace of
        Inl err \<Rightarrow>
          (False, None,
           Some (''failed to list volumesnapshots (CSI snapshots may not be available): '' @ err))
      | Inr snapshots \<Rightarrow> HasReadySnapshot_loop sc pvcName snapshots)"

subsection \<open>The risk calculator\<close>

record RiskyPVC =
  risky_Name :: string
  risky_Namespace :: string
  risky_PVName :: string
  risky_Reason :: string
  risky_HasSnapshot :: bool
  risky_SnapshotInfo :: string

record RiskAssessment =
  IsRisky :: bool
  RiskyPVCs :: "RiskyPVC list"
  Message :: string
  Suggestion :: string

text \<open>\<^verbatim>\<open>snapshotChecker\<close> is a pointer that \<^verbatim>\<open>main\<close> sets to nil when the checker cannot be built.\<close>

record RiskCalculator =
  client :: Clientset
  snapshotChecker :: "SnapshotChecker option"

definition isPVRisky :: "PersistentVolume \<Rightarrow> bool" where
  "isPVRisky pv =
     (if pv_PersistentVolumeReclaimPolicy pv = PersistentVolumeReclaimRetain then False
      else if pv_PersistentVolumeReclaimPolicy pv = PersistentVolumeReclaimDelete then True
      else True)"

definition isPVCRisky ::
  "RiskCalculator \<Rightarrow> string \<Rightarrow> string \<Rightarrow> PersistentVolume \<Rightarrow> bool \<times> string \<times> SnapshotInfo option"
where
  "isPVCRisky rc namespace pvcName pv =
     (if pv_PersistentVolumeReclaimPolicy pv = PersistentVolumeReclaimRetain
      then (False, ''PV has Retain reclaim policy'', None)
      else
        (let risky = (True, ''PV has '' @ pv_PersistentVolumeReclaimPolicy pv
                              @ '' reclaim policy, no snapshot found'', None)
         in case snapshotChecker rc of
              None \<Rightarrow> risky
            | Some sc \<Rightarrow>
                (case HasReadySnapshot sc namespace pvcName of
                   (hasSnapshot, snapshotInfo, err) \<Rightarrow>
                     if err = None \<and> hasSnapshot \<and> snapshotInfo \<noteq> None
                     then (False, ''Ready VolumeSnapshot '' @ sq @ si_Name (the snapshotInfo) @ sq
                                   @ '' exists with Retain policy'', snapshotInfo)
                     else risky)))"

definition buildNamespaceBlockMessage :: "string \<Rightarrow> RiskyPVC list \<Rightarrow> string" where
  "buildNamespaceBlockMessage namespace riskyPVCs =
     ''DELETION BLOCKED: Namespace '' @ sq @ namespace @ sq @ '' contains ''
       @ itoa (length riskyPVCs) @ '' PVC(s) that would lose data permanently'' @ nl @ nl
     @ ''Risky PVCs:'' @ nl
     @ concat (map (\<lambda>risky. ''  - '' @ risky_Name risky @ '': '' @ risky_Reason risky @ nl)
                   riskyPVCs)"

definition buildPVCBlockMessage :: "RiskyPVC \<Rightarrow> string" where
  "buildPVCBlockMessage risky =
     ''DELETION BLOCKED: PVC '' @ sq @ risky_Namespace risky @ ''/'' @ risky_Name risky @ sq
       @ '' would lose data permanently'' @ nl @ nl
       @ ''Reason: '' @ risky_Reason risky @ nl"

definition buildPVBlockMessage :: "PersistentVolume \<Rightarrow> RiskyPVC \<Rightarrow> string" where
  "buildPVBlockMessage pv risky =
     (let msg = ''DELETION BLOCKED: PV '' @ sq @ pv_Name pv @ sq
                  @ '' would lose data permanently'' @ nl @ nl
                  @ ''Reason: '' @ risky_Reason risky @ nl
      in if risky_Namespace risky \<noteq> '''' \<and> risky_Name risky \<noteq> ''''
         then msg @ ''Bound to: '' @ risky_Namespace risky @ ''/'' @ risky_Name risky @ nl
         else msg)"

text \<open>The JSON patch that every suggestion quotes.\<close>

definition retainPatch :: string where
  "retainPatch = '' -p '' @ sq @ ''{'' @ dq @ ''spec'' @ dq @ '':{'' @ dq
                 @ ''persistentVolumeReclaimPolicy'' @ dq @ '':'' @ dq @ ''Retain'' @ dq
                 @ ''}}'' @ sq @ nl"

definition buildPVCSuggestions :: "string \<Rightarrow> string \<Rightarrow> string \<Rightarrow> string" where
  "buildPVCSuggestions namespace pvcName pvName =
     nl @ ''To safely delete this PVC:'' @ nl
     @ ''  1. Create a VolumeSnapshot of the data'' @ nl
     @ ''  2. OR change PV reclaim policy to Retain:'' @ nl
     @ ''     kubectl patch pv '' @ pvName @ retainPatch
     @ nl @ ''  3. OR force delete (will lose data):'' @ nl
     @ ''     kubectl label pvc '' @ pvcName @ '' -n '' @ namespace
       @ '' pv-safe.io/force-delete=true'' @ nl
     @ ''     kubectl delete pvc '' @ pvcName @ '' -n '' @ namespace @ nl
     @ nl @ ''  4. Then retry the deletion'' @ nl"

definition buildSuggestions :: "string \<Rightarrow> RiskyPVC list \<Rightarrow> string" where
  "buildSuggestions namespace riskyPVCs =
     nl @ ''To safely delete this resource:'' @ nl
     @ ''  1. Create VolumeSnapshots for the PVCs'' @ nl
     @ ''  2. OR change PV reclaim policy to Retain:'' @ nl
     @ concat (map (\<lambda>risky. ''     kubectl patch pv '' @ risky_PVName risky @ retainPatch)
                   riskyPVCs)
     @ nl @ ''  3. OR force delete (will lose data):'' @ nl
     @ ''     kubectl label namespace '' @ namespace @ '' pv-safe.io/force-delete=true'' @ nl
     @ ''     kubectl delete namespace '' @ namespace @ nl
     @ nl @ ''  4. Then retry the deletion'' @ nl"

definition buildPVSuggestions :: "PersistentVolume \<Rightarrow> string" where
  "buildPVSuggestions pv =
     nl @ ''To safely delete this PV:'' @ nl
     @ ''  1. Create a VolumeSnapshot of the data'' @ nl
     @ ''  2. OR change reclaim policy to Retain:'' @ nl
     @ ''     kubectl patch pv '' @ pv_Name pv @ retainPatch
     @ nl @ ''  3. OR force delete (will lose data):'' @ nl
     @ ''     kubectl label pv '' @ pv_Name pv @ '' pv-safe.io/force-delete=true'' @ nl
     @ ''     kubectl delete pv '' @ pv_Name pv @ nl
     @ nl @ ''  4. Then retry the deletion'' @ nl"

text \<open>
  The \<^verbatim>\<open>RiskyPVC\<close> literal that \<^verbatim>\<open>AssessNamespaceDeletion\<close> and \<^verbatim>\<open>AssessPVCDeletion\<close>
  both build, with the \<^verbatim>\<open>if snapshotInfo != nil\<close> that follows it.
\<close>

definition mkRiskyPVC ::
  "string \<Rightarrow> string \<Rightarrow> string \<Rightarrow> string \<Rightarrow> SnapshotInfo option \<Rightarrow> RiskyPVC"
where
  "mkRiskyPVC name namespace pvName reason snapshotInfo =
     (let riskyPVC = \<lparr> risky_Name = name, risky_Namespace = namespace, risky_PVName = pvName,
                       risky_Reason = reason, risky_HasSnapshot = False,
                       risky_SnapshotInfo = '''' \<rparr>
      in case snapshotInfo of
           None \<Rightarrow> riskyPVC
         | Some info \<Rightarrow> riskyPVC\<lparr> risky_HasSnapshot := True, risky_SnapshotInfo := si_Name info \<rparr>)"

text \<open>
  The \<^verbatim>\<open>for _, pvc := range pvcs.Items\<close> loop of \<^verbatim>\<open>AssessNamespaceDeletion\<close>, the
  assessment under construction passed along.
\<close>

fun AssessNamespaceDeletion_loop ::
  "RiskCalculator \<Rightarrow> PersistentVolumeClaim list \<Rightarrow> RiskAssessment \<Rightarrow> RiskAssessment"
where
  "AssessNamespaceDeletion_loop rc [] assessment = assessment"
| "AssessNamespaceDeletion_loop rc (pvc # pvcs) assessment =
     (if pvc_Phase pvc \<noteq> ClaimBound then AssessNamespaceDeletion_loop rc pvcs assessment
      else case PersistentVolumes_Get (client rc) (pvc_VolumeName pvc) of
             Inl err \<Rightarrow> AssessNamespaceDeletion_loop rc pvcs assessment
           | Inr pv \<Rightarrow>
               (case isPVCRisky rc (pvc_Namespace pvc) (pvc_Name pvc) pv of
                  (isRisky, reason, snapshotInfo) \<Rightarrow>
                    if isRisky
                    then AssessNamespaceDeletion_loop rc pvcs
                           (assessment\<lparr> IsRisky := True,
                                        RiskyPVCs := RiskyPVCs assessment @
                                          [mkRiskyPVC (pvc_Name pvc) (pvc_Namespace pvc)
                                             (pv_Name pv) reason snapshotInfo] \<rparr>)
                    else AssessNamespaceDeletion_loop rc pvcs assessment))"

definition AssessNamespaceDeletion :: "RiskCalculator \<Rightarrow> string \<Rightarrow> error + RiskAssessment" where
  "AssessNamespaceDeletion rc namespace =
     (case PersistentVolumeClaims_List (client rc) namespace of
        Inl err \<Rightarrow> Inl (''failed to list PVCs in namespace '' @ namespace @ '': '' @ err)
      | Inr pvcs \<Rightarrow>
          if length pvcs = 0
          then Inr \<lparr> IsRisky = False, RiskyPVCs = [],
                     Message = ''Namespace '' @ namespace @ '' has no PVCs'', Suggestion = '''' \<rparr>
          else
            (let assessment = AssessNamespaceDeletion_loop rc pvcs
                                \<lparr> IsRisky = False, RiskyPVCs = [], Message = '''',
                                  Suggestion = '''' \<rparr>
             in if IsRisky assessment
                then Inr (assessment\<lparr>
                       Message := buildNamespaceBlockMessage namespace (RiskyPVCs assessment),
                       Suggestion := buildSuggestions namespace (RiskyPVCs assessment) \<rparr>)
                else Inr assessment))"

definition AssessPVCDeletion :: "RiskCalculator \<Rightarrow> string \<Rightarrow> string \<Rightarrow> error + RiskAssessment" where
  "AssessPVCDeletion rc namespace name =
     (case PersistentVolumeClaims_Get (client rc) namespace name of
        Inl err \<Rightarrow> Inl (''failed to get PVC '' @ namespace @ ''/'' @ name @ '': '' @ err)
      | Inr pvc \<Rightarrow>
          if pvc_Phase pvc \<noteq> ClaimBound
          then Inr \<lparr> IsRisky = False, RiskyPVCs = [],
                     Message = ''PVC '' @ namespace @ ''/'' @ name @ '' is not bound to a PV'',
                     Suggestion = '''' \<rparr>
          else
            (case PersistentVolumes_Get (client rc) (pvc_VolumeName pvc) of
               Inl err \<Rightarrow> Inl (''failed to get PV '' @ pvc_VolumeName pvc @ '': '' @ err)
             | Inr pv \<Rightarrow>
                 (case isPVCRisky rc namespace name pv of
                    (isRisky, reason, snapshotInfo) \<Rightarrow>
                      (let assessment = \<lparr> IsRisky = isRisky, RiskyPVCs = [], Message = '''',
                                          Suggestion = '''' \<rparr>
                       in if IsRisky assessment
                          then (let riskyPVC = mkRiskyPVC name namespace (pv_Name pv) reason
                                                 snapshotInfo
                                in Inr (assessment\<lparr>
                                     RiskyPVCs := [riskyPVC],
                                     Message := buildPVCBlockMessage riskyPVC,
                                     Suggestion := buildPVCSuggestions namespace name
                                                     (pv_Name pv) \<rparr>))
                          else if snapshotInfo \<noteq> None
                          then Inr (assessment\<lparr> Message := reason \<rparr>)
                          else Inr assessment))))"

definition AssessPVDeletion :: "RiskCalculator \<Rightarrow> string \<Rightarrow> error + RiskAssessment" where
  "AssessPVDeletion rc pvName =
     (case PersistentVolumes_Get (client rc) pvName of
        Inl err \<Rightarrow> Inl (''failed to get PV '' @ pvName @ '': '' @ err)
      | Inr pv \<Rightarrow>
          (let assessment = \<lparr> IsRisky = isPVRisky pv, RiskyPVCs = [], Message = '''',
                              Suggestion = '''' \<rparr>
           in if IsRisky assessment
              then (let namespace = (case pv_ClaimRef pv of None \<Rightarrow> ''''
                                     | Some ref \<Rightarrow> ref_Namespace ref);
                        pvcName = (case pv_ClaimRef pv of None \<Rightarrow> ''''
                                   | Some ref \<Rightarrow> ref_Name ref);
                        riskyPVC = \<lparr> risky_Name = pvcName, risky_Namespace = namespace,
                                     risky_PVName = pv_Name pv,
                                     risky_Reason = ''PV has ''
                                       @ pv_PersistentVolumeReclaimPolicy pv
                                       @ '' reclaim policy, no snapshot found'',
                                     risky_HasSnapshot = False, risky_SnapshotInfo = '''' \<rparr>
                    in Inr (assessment\<lparr>
                         RiskyPVCs := [riskyPVC],
                         Message := buildPVBlockMessage pv riskyPVC,
                         Suggestion := buildPVSuggestions pv \<rparr>))
              else Inr assessment))"

subsection \<open>The admission handler\<close>

definition BypassLabel :: string where
  "BypassLabel = ''pv-safe.io/force-delete''"

text \<open>\<^verbatim>\<open>admissionv1.Operation\<close> is a string type.\<close>

definition Delete :: string where
  "Delete = ''DELETE''"

definition StatusReasonForbidden :: string where
  "StatusReasonForbidden = ''Forbidden''"

record AdmissionRequest =
  req_UID :: string
  req_Operation :: string
  req_Kind :: string
  req_Namespace :: string
  req_Name :: string
  req_Username :: string
  req_Groups :: "string list"
  req_OldObject_Raw :: "string option"

record Status =
  st_Status :: string
  st_Message :: string
  st_Reason :: string
  st_Code :: int

record AdmissionResponse =
  resp_UID :: string
  resp_Allowed :: bool
  resp_Result :: "Status option"

record AdmissionReview =
  rev_APIVersion :: string
  rev_Kind :: string
  rev_Request :: "AdmissionRequest option"
  rev_Response :: "AdmissionResponse option"

text \<open>\<^verbatim>\<open>encoding/json\<close>, as far as the handler calls it.\<close>

record JSON =
  Unmarshal_Unstructured :: "string \<Rightarrow> error + Unstructured"
  Unmarshal_AdmissionReview :: "string \<Rightarrow> error + AdmissionReview"
  Marshal_AdmissionReview :: "AdmissionReview \<Rightarrow> error + string"

record Handler =
  handler_RiskCalculator :: RiskCalculator

text \<open>A \<^verbatim>\<open>metav1.Status\<close> literal that sets only \<^verbatim>\<open>Message\<close>.\<close>

definition messageStatus :: "string \<Rightarrow> Status" where
  "messageStatus m = \<lparr> st_Status = '''', st_Message = m, st_Reason = '''', st_Code = 0 \<rparr>"

definition hasBypassLabel :: "JSON \<Rightarrow> AdmissionRequest \<Rightarrow> bool" where
  "hasBypassLabel js request =
     (case req_OldObject_Raw request of
        None \<Rightarrow> False
      | Some raw \<Rightarrow>
          (case Unmarshal_Unstructured js raw of
             Inl err \<Rightarrow> False
           | Inr obj \<Rightarrow>
               (case GetLabels obj of
                  None \<Rightarrow> False
                | Some labels \<Rightarrow>
                    (case labels BypassLabel of
                       None \<Rightarrow> False
                     | Some v \<Rightarrow> v = ''true''))))"

text \<open>The \<^verbatim>\<open>switch kind\<close> of \<^verbatim>\<open>assessAndDecide\<close>; \<open>None\<close> is its \<^verbatim>\<open>default\<close> branch.\<close>

definition assessKind :: "Handler \<Rightarrow> AdmissionRequest \<Rightarrow> (error + RiskAssessment) option" where
  "assessKind h request =
     (let kind = req_Kind request; namespace = req_Namespace request; name = req_Name request
      in if kind = ''Namespace''
         then Some (AssessNamespaceDeletion (handler_RiskCalculator h) name)
         else if kind = ''PersistentVolumeClaim''
         then Some (AssessPVCDeletion (handler_RiskCalculator h) namespace name)
         else if kind = ''PersistentVolume''
         then Some (AssessPVDeletion (handler_RiskCalculator h) name)
         else None)"

text \<open>
  \<^verbatim>\<open>assessAndDecide\<close> after its bypass check: the switch on the kind and the three
  outcomes of the assessment.
\<close>

definition decideByRisk :: "Handler \<Rightarrow> AdmissionRequest \<Rightarrow> AdmissionResponse" where
  "decideByRisk h request =
     (case assessKind h request of
        None \<Rightarrow> \<lparr> resp_UID = req_UID request, resp_Allowed = True, resp_Result = None \<rparr>
      | Some (Inl err) \<Rightarrow>
          \<lparr> resp_UID = req_UID request, resp_Allowed = True,
            resp_Result = Some (messageStatus (''Risk assessment error (allowed): '' @ err)) \<rparr>
      | Some (Inr assessment) \<Rightarrow>
          if IsRisky assessment
          then (let message = Message assessment @ Suggestion assessment
                in \<lparr> resp_UID = req_UID request, resp_Allowed = False,
                     resp_Result = Some \<lparr> st_Status = ''Failure'', st_Message = message,
                                          st_Reason = StatusReasonForbidden, st_Code = 403 \<rparr> \<rparr>)
          else \<lparr> resp_UID = req_UID request, resp_Allowed = True,
                 resp_Result = Some (messageStatus ''Deletion allowed - safe operation'') \<rparr>)"

definition assessAndDecide :: "JSON \<Rightarrow> Handler \<Rightarrow> AdmissionRequest \<Rightarrow> AdmissionResponse" where
  "assessAndDecide js h request =
     (if hasBypassLabel js request
      then \<lparr> resp_UID = req_UID request, resp_Allowed = True,
             resp_Result = Some (messageStatus (''Deletion allowed via bypass label ''
                                                 @ BypassLabel)) \<rparr>
      else decideByRisk h request)"

definition handleAdmissionRequest ::
  "JSON \<Rightarrow> Handler \<Rightarrow> AdmissionRequest \<Rightarrow> AdmissionResponse"
where
  "handleAdmissionRequest js h request =
     (if req_Operation request = Delete then assessAndDecide js h request
      else \<lparr> resp_UID = req_UID request, resp_Allowed = True,
             resp_Result = Some (messageStatus ''Request allowed'') \<rparr>)"

text \<open>
  The HTTP exchange: the method and what \<^verbatim>\<open>io.ReadAll\<close> returns for the body come in;
  \<^verbatim>\<open>http.Error\<close> with its text and status code, or the bytes written with status 200, go out.
\<close>

record HttpRequest =
  http_Method :: string
  http_Body :: "error + string"

datatype HttpReply = http_Error string nat | http_Write string

definition ServeHTTP :: "JSON \<Rightarrow> Handler \<Rightarrow> HttpRequest \<Rightarrow> HttpReply" where
  "ServeHTTP js h r =
     (if http_Method r \<noteq> ''POST'' then http_Error ''Method not allowed'' 405
      else case http_Body r of
             Inl err \<Rightarrow> http_Error ''Error reading request body'' 400
           | Inr body \<Rightarrow>
               (case Unmarshal_AdmissionReview js body of
                  Inl err \<Rightarrow> http_Error ''Error parsing admission review'' 400
                | Inr admissionReview \<Rightarrow>
                    (case rev_Request admissionReview of
                       None \<Rightarrow> http_Error ''Invalid admission review'' 400
                     | Some request \<Rightarrow>
                         (let response = handleAdmissionRequest js h request;
                              admissionResponse =
                                \<lparr> rev_APIVersion = ''admission.k8s.io/v1'',
                                  rev_Kind = ''AdmissionReview'',
                                  rev_Request = None,
                                  rev_Response = Some response \<rparr>
                          in case Marshal_AdmissionReview js admissionResponse of
                               Inl err \<Rightarrow> http_Error ''Error creating response'' 500
                             | Inr responseBytes \<Rightarrow> http_Write responseBytes))))"

section \<open>The vocabulary of the specification\<close>

text \<open>
  The predicates below follow the wording of the specification, not the control flow of
  the code; the theorems compare them with the embedded functions.
\<close>

text \<open>"its source PVC name matches": the accessor found a string, without error, equal
  to the PVC name.\<close>

definition sourceMatches :: "string \<Rightarrow> Unstructured \<Rightarrow> bool" where
  "sourceMatches pvcName item =
     (case spec_source_persistentVolumeClaimName item of
        (sourcePVC, found, err) \<Rightarrow> err = None \<and> found \<and> sourcePVC = pvcName)"

text \<open>"its ready flag is true".\<close>

definition readyFlag :: "Unstructured \<Rightarrow> bool" where
  "readyFlag item = (case status_readyToUse item of (ready, _, _) \<Rightarrow> ready)"

text \<open>"a snapshot lacking a class reference".\<close>

definition lacksClassReference :: "Unstructured \<Rightarrow> bool" where
  "lacksClassReference item =
     (case spec_volumeSnapshotClassName item of
        (snapshotClassName, found, _) \<Rightarrow> \<not> found \<or> snapshotClassName = '''')"

text \<open>"whose class lookup fails".\<close>

definition classLookupFails :: "SnapshotChecker \<Rightarrow> Unstructured \<Rightarrow> bool" where
  "classLookupFails sc item =
     (case spec_volumeSnapshotClassName item of
        (snapshotClassName, _, _) \<Rightarrow>
          isl (volumesnapshotclasses_Get (dynamicClient sc) snapshotClassName))"

text \<open>"its snapshot class resolves to deletion policy Retain": the snapshot names a class,
  the class is fetched, and the class object carries the string \<^verbatim>\<open>Retain\<close> at
  \<^verbatim>\<open>deletionPolicy\<close>.\<close>

definition classResolvesToRetain :: "SnapshotChecker \<Rightarrow> Unstructured \<Rightarrow> bool" where
  "classResolvesToRetain sc item =
     (\<not> lacksClassReference item \<and> \<not> classLookupFails sc item \<and>
      (case spec_volumeSnapshotClassName item of
         (snapshotClassName, _, _) \<Rightarrow>
           (case volumesnapshotclasses_Get (dynamicClient sc) snapshotClassName of
              Inl _ \<Rightarrow> False
            | Inr class \<Rightarrow>
                (case deletionPolicy class of
                   (policy, found, err) \<Rightarrow> err = None \<and> found \<and> policy = ''Retain''))))"

definition acceptsSnapshot :: "SnapshotChecker \<Rightarrow> string \<Rightarrow> Unstructured \<Rightarrow> bool" where
  "acceptsSnapshot sc pvcName item =
     (sourceMatches pvcName item \<and> readyFlag item \<and> classResolvesToRetain sc item)"

text \<open>
  "no ready snapshot with a Retain-policy snapshot class exists" for a PVC, as far as the
  webhook can see: there is no snapshot checker, or the snapshots of the namespace cannot
  be listed, or none of the listed snapshots is accepted.
\<close>

definition noReadyRetainSnapshot :: "RiskCalculator \<Rightarrow> string \<Rightarrow> string \<Rightarrow> bool" where
  "noReadyRetainSnapshot rc namespace pvcName =
     (case snapshotChecker rc of
        None \<Rightarrow> True
      | Some sc \<Rightarrow>
          (case volumesnapshots_List (dynamicClient sc) namespace of
             Inl err \<Rightarrow> True
           | Inr items \<Rightarrow> list_all (\<lambda>item. \<not> acceptsSnapshot sc pvcName item) items))"

section \<open>Auxiliary definitions\<close>

text \<open>
  What one PVC of the listing adds to the risky list of a namespace assessment, nothing or
  one entry: the body of the loop of \<^verbatim>\<open>AssessNamespaceDeletion\<close> for one PVC.
\<close>

definition pvcEntries :: "RiskCalculator \<Rightarrow> PersistentVolumeClaim \<Rightarrow> RiskyPVC list" where
  "pvcEntries rc pvc =
     (if pvc_Phase pvc \<noteq> ClaimBound then []
      else case PersistentVolumes_Get (client rc) (pvc_VolumeName pvc) of
             Inl err \<Rightarrow> []
           | Inr pv \<Rightarrow>
               (case isPVCRisky rc (pvc_Namespace pvc) (pvc_Name pvc) pv of
                  (isRisky, reason, snapshotInfo) \<Rightarrow>
                    if isRisky
                    then [mkRiskyPVC (pvc_Name pvc) (pvc_Namespace pvc) (pv_Name pv) reason
                            snapshotInfo]
                    else []))"

text \<open>The two assignments of the loop body, for the entries of one or more PVCs.\<close>

definition addEntries :: "RiskAssessment \<Rightarrow> RiskyPVC list \<Rightarrow> RiskAssessment" where
  "addEntries a es =
     (if es = [] then a else a\<lparr> IsRisky := True, RiskyPVCs := RiskyPVCs a @ es \<rparr>)"

text \<open>The assessment that \<^verbatim>\<open>AssessNamespaceDeletion\<close> starts its loop with.\<close>

definition emptyAssessment :: RiskAssessment where
  "emptyAssessment = \<lparr> IsRisky = False, RiskyPVCs = [], Message = '''', Suggestion = '''' \<rparr>"

text \<open>The listing of one namespace replaced, the cluster otherwise as it is.\<close>

definition withListing ::
  "RiskCalculator \<Rightarrow> string \<Rightarrow> PersistentVolumeClaim list \<Rightarrow> RiskCalculator"
where
  "withListing rc namespace pvcs =
     rc\<lparr> client := (client rc)\<lparr> PersistentVolumeClaims_List :=
            (PersistentVolumeClaims_List (client rc))(namespace := Inr pvcs) \<rparr> \<rparr>"

text \<open>The deny response of \<^verbatim>\<open>assessAndDecide\<close> and its allow responses with a message.\<close>

definition denyResponse :: "string \<Rightarrow> string \<Rightarrow> AdmissionResponse" where
  "denyResponse uid message =
     \<lparr> resp_UID = uid, resp_Allowed = False,
       resp_Result = Some \<lparr> st_Status = ''Failure'', st_Message = message,
                            st_Reason = ''Forbidden'', st_Code = 403 \<rparr> \<rparr>"

definition allowResponse :: "string \<Rightarrow> string \<Rightarrow> AdmissionResponse" where
  "allowResponse uid message =
     \<lparr> resp_UID = uid, resp_Allowed = True,
       resp_Result = Some \<lparr> st_Status = '''', st_Message = message,
                            st_Reason = '''', st_Code = 0 \<rparr> \<rparr>"

section \<open>A small cluster\<close>

text \<open>
  The cluster of the end-to-end scenarios. Namespace \<^verbatim>\<open>prod\<close> holds the PVCs \<^verbatim>\<open>web\<close>
  (bound to \<^verbatim>\<open>pv-1\<close>, Retain) and \<^verbatim>\<open>db\<close> (bound to \<^verbatim>\<open>pv-2\<close>, Delete) and one ready
  snapshot of \<^verbatim>\<open>db\<close> whose class has deletion policy Delete. Namespace \<^verbatim>\<open>staging\<close>
  holds the PVC \<^verbatim>\<open>c\<close> (bound to \<^verbatim>\<open>pv-3\<close>, Delete) with four snapshots: one without a
  class, one of class \<^verbatim>\<open>c-del\<close> (Delete), then two of class \<^verbatim>\<open>c1\<close> (Retain).
  Namespace \<^verbatim>\<open>lost\<close> holds the PVCs \<^verbatim>\<open>orphan\<close> and \<^verbatim>\<open>stray\<close>, each bound to a PV
  that cannot be fetched.
  \<^verbatim>\<open>pv-4\<close> has no reclaim policy set.
\<close>

definition notFound :: "string \<Rightarrow> error" where
  "notFound name = name @ '' not found''"

definition ex_pv1 :: PersistentVolume where
  "ex_pv1 = \<lparr> pv_Name = ''pv-1'', pv_PersistentVolumeReclaimPolicy = ''Retain'',
              pv_ClaimRef = Some \<lparr> ref_Namespace = ''prod'', ref_Name = ''web'' \<rparr> \<rparr>"

definition ex_pv2 :: PersistentVolume where
  "ex_pv2 = \<lparr> pv_Name = ''pv-2'', pv_PersistentVolumeReclaimPolicy = ''Delete'',
              pv_ClaimRef = Some \<lparr> ref_Namespace = ''prod'', ref_Name = ''db'' \<rparr> \<rparr>"

definition ex_pv3 :: PersistentVolume where
  "ex_pv3 = \<lparr> pv_Name = ''pv-3'', pv_PersistentVolumeReclaimPolicy = ''Delete'',
              pv_ClaimRef = Some \<lparr> ref_Namespace = ''staging'', ref_Name = ''c'' \<rparr> \<rparr>"

definition ex_pv4 :: PersistentVolume where
  "ex_pv4 = \<lparr> pv_Name = ''pv-4'', pv_PersistentVolumeReclaimPolicy = '''',
              pv_ClaimRef = None \<rparr>"

definition ex_web :: PersistentVolumeClaim where
  "ex_web = \<lparr> pvc_Name = ''web'', pvc_Namespace = ''prod'', pvc_Phase = ''Bound'',
              pvc_VolumeName = ''pv-1'' \<rparr>"

definition ex_db :: PersistentVolumeClaim where
  "ex_db = \<lparr> pvc_Name = ''db'', pvc_Namespace = ''prod'', pvc_Phase = ''Bound'',
             pvc_VolumeName = ''pv-2'' \<rparr>"

definition ex_c :: PersistentVolumeClaim where
  "ex_c = \<lparr> pvc_Name = ''c'', pvc_Namespace = ''staging'', pvc_Phase = ''Bound'',
            pvc_VolumeName = ''pv-3'' \<rparr>"

definition ex_orphan :: PersistentVolumeClaim where
  "ex_orphan = \<lparr> pvc_Name = ''orphan'', pvc_Namespace = ''lost'', pvc_Phase = ''Bound'',
                 pvc_VolumeName = ''pv-gone'' \<rparr>"

definition ex_stray :: PersistentVolumeClaim where
  "ex_stray = \<lparr> pvc_Name = ''stray'', pvc_Namespace = ''lost'', pvc_Phase = ''Bound'',
                pvc_VolumeName = ''pv-lost'' \<rparr>"

definition ex_clientset :: Clientset where
  "ex_clientset =
     \<lparr> PersistentVolumes_Get =
         (\<lambda>name. if name = ''pv-1'' then Inr ex_pv1
                  else if name = ''pv-2'' then Inr ex_pv2
                  else if name = ''pv-3'' then Inr ex_pv3
                  else if name = ''pv-4'' then Inr ex_pv4
                  else Inl (notFound name)),
       PersistentVolumeClaims_Get =
         (\<lambda>namespace name.
            if namespace = ''prod'' \<and> name = ''web'' then Inr ex_web
            else if namespace = ''prod'' \<and> name = ''db'' then Inr ex_db
            else if namespace = ''staging'' \<and> name = ''c'' then Inr ex_c
            else if namespace = ''lost'' \<and> name = ''orphan'' then Inr ex_orphan
            else Inl (notFound name)),
       PersistentVolumeClaims_List =
         (\<lambda>namespace.
            if namespace = ''prod'' then Inr [ex_web, ex_db]
            else if namespace = ''staging'' then Inr [ex_c]
            else if namespace = ''lost'' then Inr [ex_orphan, ex_stray]
            else if namespace = ''down'' then Inl ''context deadline exceeded''
            else Inr []) \<rparr>"

text \<open>An object on which every accessor finds nothing.\<close>

definition emptyObject :: Unstructured where
  "emptyObject =
     \<lparr> GetName = '''', GetNamespace = '''', GetCreationTimestamp = 0, GetLabels = None,
       spec_source_persistentVolumeClaimName = ('''', False, None),
       status_readyToUse = (False, False, None),
       spec_volumeSnapshotClassName = ('''', False, None),
       status_restoreSize = ('''', False, None),
       deletionPolicy = ('''', False, None) \<rparr>"

definition snapshotObject :: "string \<Rightarrow> string \<Rightarrow> string \<Rightarrow> bool \<Rightarrow> string \<Rightarrow> Unstructured" where
  "snapshotObject name namespace sourcePVC ready className =
     emptyObject\<lparr> GetName := name, GetNamespace := namespace,
                  spec_source_persistentVolumeClaimName := (sourcePVC, True, None),
                  status_readyToUse := (ready, True, None),
                  spec_volumeSnapshotClassName := (className, className \<noteq> '''', None) \<rparr>"

definition classObject :: "string \<Rightarrow> string \<Rightarrow> Unstructured" where
  "classObject name policy = emptyObject\<lparr> GetName := name, deletionPolicy := (policy, True, None) \<rparr>"

definition ex_snapshots_staging :: "Unstructured list" where
  "ex_snapshots_staging =
     [snapshotObject ''snap-a'' ''staging'' ''c'' True '''',
      snapshotObject ''snap-b'' ''staging'' ''c'' True ''c-del'',
      snapshotObject ''snap-1'' ''staging'' ''c'' True ''c1'',
      snapshotObject ''snap-2'' ''staging'' ''c'' True ''c1'']"

definition ex_dynamic :: DynamicClient where
  "ex_dynamic =
     \<lparr> volumesnapshots_List =
         (\<lambda>namespace.
            if namespace = ''prod''
            then Inr [snapshotObject ''snap-db'' ''prod'' ''db'' True ''c-del'']
            else if namespace = ''staging'' then Inr ex_snapshots_staging
            else Inr []),
       volumesnapshotclasses_Get =
         (\<lambda>className.
            if className = ''c1'' then Inr (classObject ''c1'' ''Retain'')
            else if className = ''c-del'' then Inr (classObject ''c-del'' ''Delete'')
            else Inl (notFound className)) \<rparr>"

definition ex_checker :: SnapshotChecker where
  "ex_checker = \<lparr> dynamicClient = ex_dynamic, clientset = ex_clientset \<rparr>"

definition ex_rc :: RiskCalculator where
  "ex_rc = \<lparr> client = ex_clientset, snapshotChecker = Some ex_checker \<rparr>"

definition ex_handler :: Handler where
  "ex_handler = \<lparr> handler_RiskCalculator = ex_rc \<rparr>"

text \<open>
  A decoder that knows four prior objects: one labelled \<^verbatim>\<open>pv-safe.io/force-delete=true\<close>,
  one labelled \<^verbatim>\<open>pv-safe.io/force-delete=True\<close>, one with other labels only and one with
  no labels. Every other byte string fails to parse. The admission review codec knows
  one body.
\<close>

definition ex_request :: "string \<Rightarrow> string \<Rightarrow> string \<Rightarrow> string option \<Rightarrow> AdmissionRequest" where
  "ex_request kind namespace name raw =
     \<lparr> req_UID = ''uid-1'', req_Operation = ''DELETE'', req_Kind = kind,
       req_Namespace = namespace, req_Name = name, req_Username = ''alice'',
       req_Groups = [''system:authenticated''], req_OldObject_Raw = raw \<rparr>"

definition ex_json :: JSON where
  "ex_json =
     \<lparr> Unmarshal_Unstructured =
         (\<lambda>raw. if raw = ''<force-delete=true>''
                 then Inr (emptyObject\<lparr> GetLabels := Some [BypassLabel \<mapsto> ''true''] \<rparr>)
                 else if raw = ''<force-delete=True>''
                 then Inr (emptyObject\<lparr> GetLabels := Some [BypassLabel \<mapsto> ''True''] \<rparr>)
                 else if raw = ''<app=db>''
                 then Inr (emptyObject\<lparr> GetLabels := Some [''app'' \<mapsto> ''db''] \<rparr>)
                 else if raw = ''<no labels>'' then Inr emptyObject
                 else Inl ''invalid character''),
       Unmarshal_AdmissionReview =
         (\<lambda>body. if body = ''<delete pvc prod/db>''
                  then Inr \<lparr> rev_APIVersion = ''admission.k8s.io/v1'',
                             rev_Kind = ''AdmissionReview'',
                             rev_Request =
                               Some (ex_request ''PersistentVolumeClaim'' ''prod'' ''db'' None),
                             rev_Response = None \<rparr>
                  else Inl ''unexpected end of JSON input''),
       Marshal_AdmissionReview =
         (\<lambda>review. case rev_Response review of
                      None \<Rightarrow> Inr ''<no response>''
                    | Some response \<Rightarrow>
                        Inr (if resp_Allowed response then ''<allowed>'' else ''<denied>'')) \<rparr>"


text \<open>The assessment of deleting \<^verbatim>\<open>prod/db\<close>, and the listing of \<^verbatim>\<open>prod\<close> reversed.\<close>

definition ex_db_risky :: RiskyPVC where
  "ex_db_risky =
     \<lparr> risky_Name = ''db'', risky_Namespace = ''prod'', risky_PVName = ''pv-2'',
       risky_Reason = ''PV has Delete reclaim policy, no snapshot found'',
       risky_HasSnapshot = False, risky_SnapshotInfo = '''' \<rparr>"

definition ex_db_assessment :: RiskAssessment where
  "ex_db_assessment =
     \<lparr> IsRisky = True, RiskyPVCs = [ex_db_risky],
       Message = buildPVCBlockMessage ex_db_risky,
       Suggestion = buildPVCSuggestions ''prod'' ''db'' ''pv-2'' \<rparr>"

lemma itemDeletionPolicy_Retain:
  "itemDeletionPolicy sc item = ''Retain'' \<longleftrightarrow> classResolvesToRetain sc item"
  by (auto simp: itemDeletionPolicy_def classResolvesToRetain_def lacksClassReference_def
      classLookupFails_def getSnapshotClassDeletionPolicy_def UnknownDeletionPolicy_def
      split: prod.splits sum.splits if_splits)

lemma itemDeletionPolicy_Unknown:
  "lacksClassReference item \<or> classLookupFails sc item \<Longrightarrow>
   itemDeletionPolicy sc item = UnknownDeletionPolicy"
  by (auto simp: itemDeletionPolicy_def lacksClassReference_def
      classLookupFails_def getSnapshotClassDeletionPolicy_def
      split: prod.splits sum.splits if_splits)

lemma HasReadySnapshot_loop_find:
  "HasReadySnapshot_loop sc pvcName items =
     (case find (acceptsSnapshot sc pvcName) items of
        None \<Rightarrow> (False, None, None)
      | Some item \<Rightarrow> (True, Some (itemInfo item pvcName ''Retain''), None))"
proof (induction items)
  case Nil
  show ?case by simp
next
  case (Cons item items)
  show ?case
  proof (cases "acceptsSnapshot sc pvcName item")
    case True
    then show ?thesis
      by (auto simp: acceptsSnapshot_def sourceMatches_def readyFlag_def
          itemDeletionPolicy_Retain[symmetric] Let_def split: prod.splits)
  next
    case False
    then show ?thesis
      using Cons.IH
      by (auto simp: acceptsSnapshot_def sourceMatches_def readyFlag_def
          itemDeletionPolicy_Retain[symmetric] Let_def split: prod.splits)
  qed
qed

lemma addEntries_empty:
  "IsRisky (addEntries emptyAssessment es) = (es \<noteq> [])"
  "RiskyPVCs (addEntries emptyAssessment es) = es"
  by (simp_all add: addEntries_def emptyAssessment_def)

lemma addEntries_append: "addEntries (addEntries a es) fs = addEntries a (es @ fs)"
  by (simp add: addEntries_def)

lemma AssessNamespaceDeletion_loop_step:
  "AssessNamespaceDeletion_loop rc (pvc # pvcs) a =
     AssessNamespaceDeletion_loop rc pvcs (addEntries a (pvcEntries rc pvc))"
proof (cases "pvc_Phase pvc \<noteq> ClaimBound")
  case True
  then show ?thesis by (simp add: pvcEntries_def addEntries_def)
next
  case bound: False
  show ?thesis
  proof (cases "PersistentVolumes_Get (client rc) (pvc_VolumeName pvc)")
    case (Inl err)
    with bound show ?thesis by (simp add: pvcEntries_def addEntries_def)
  next
    case (Inr pv)
    obtain isRisky reason snapshotInfo
      where r: "isPVCRisky rc (pvc_Namespace pvc) (pvc_Name pvc) pv = (isRisky, reason, snapshotInfo)"
      by (cases "isPVCRisky rc (pvc_Namespace pvc) (pvc_Name pvc) pv") auto
    show ?thesis
    proof (cases isRisky)
      case True
      with bound Inr r show ?thesis by (simp add: pvcEntries_def addEntries_def)
    next
      case False
      with bound Inr r show ?thesis by (simp add: pvcEntries_def addEntries_def)
    qed
  qed
qed

lemma AssessNamespaceDeletion_loop_entries:
  "AssessNamespaceDeletion_loop rc pvcs a = addEntries a (concat (map (pvcEntries rc) pvcs))"
proof (induction pvcs arbitrary: a)
  case Nil
  show ?case by (simp add: addEntries_def)
next
  case (Cons pvc pvcs)
  have "AssessNamespaceDeletion_loop rc (pvc # pvcs) a =
          AssessNamespaceDeletion_loop rc pvcs (addEntries a (pvcEntries rc pvc))"
    by (rule AssessNamespaceDeletion_loop_step)
  also have "\<dots> = addEntries (addEntries a (pvcEntries rc pvc)) (concat (map (pvcEntries rc) pvcs))"
    by (rule Cons.IH)
  also have "\<dots> = addEntries a (concat (map (pvcEntries rc) (pvc # pvcs)))"
    by (simp add: addEntries_append)
  finally show ?case .
qed

lemma mset_entries:
  "mset xs = mset ys \<Longrightarrow>
   mset (concat (map (pvcEntries rc) xs)) = mset (concat (map (pvcEntries rc) ys))"
proof -
  assume h: "mset xs = mset ys"
  have "\<And>zs. mset (concat (map (pvcEntries rc) zs))
          = sum_mset (image_mset (\<lambda>p. mset (pvcEntries rc p)) (mset zs))"
    by (simp add: mset_concat sum_mset_sum_list[symmetric] comp_def)
  then show ?thesis using h by simp
qed

subsection \<open>The PVC decision\<close>

lemma isPVCRisky_Retain:
  "pv_PersistentVolumeReclaimPolicy pv = ''Retain'' \<Longrightarrow>
   isPVCRisky rc namespace pvcName pv = (False, ''PV has Retain reclaim policy'', None)"
  by (simp add: isPVCRisky_def PersistentVolumeReclaimRetain_def)

lemma HasReadySnapshot_none:
  assumes "volumesnapshots_List (dynamicClient sc) namespace = Inr items"
    and "list_all (\<lambda>item. \<not> acceptsSnapshot sc pvcName item) items"
  shows "HasReadySnapshot sc namespace pvcName = (False, None, None)"
proof -
  have "find (acceptsSnapshot sc pvcName) items = None"
    using assms(2) by (simp add: find_None_iff list_all_iff)
  then show ?thesis
    using assms(1) by (simp add: HasReadySnapshot_def HasReadySnapshot_loop_find)
qed

lemma isPVCRisky_no_snapshot:
  assumes "pv_PersistentVolumeReclaimPolicy pv \<noteq> ''Retain''"
    and "noReadyRetainSnapshot rc namespace pvcName"
  shows "isPVCRisky rc namespace pvcName pv =
           (True, ''PV has '' @ pv_PersistentVolumeReclaimPolicy pv
                  @ '' reclaim policy, no snapshot found'', None)"
proof (cases "snapshotChecker rc")
  case None
  with assms(1) show ?thesis
    by (simp add: isPVCRisky_def PersistentVolumeReclaimRetain_def)
next
  case (Some sc)
  show ?thesis
  proof (cases "volumesnapshots_List (dynamicClient sc) namespace")
    case (Inl err)
    then have "HasReadySnapshot sc namespace pvcName =
        (False, None,
         Some (''failed to list volumesnapshots (CSI snapshots may not be available): '' @ err))"
      by (simp add: HasReadySnapshot_def)
    with assms(1) Some show ?thesis
      by (simp add: isPVCRisky_def PersistentVolumeReclaimRetain_def)
  next
    case (Inr items)
    with assms(2) Some
    have "list_all (\<lambda>item. \<not> acceptsSnapshot sc pvcName item) items"
      by (simp add: noReadyRetainSnapshot_def)
    with Inr have "HasReadySnapshot sc namespace pvcName = (False, None, None)"
      by (rule HasReadySnapshot_none)
    with assms(1) Some show ?thesis
      by (simp add: isPVCRisky_def PersistentVolumeReclaimRetain_def)
  qed
qed

text \<open>A risky answer of \<^verbatim>\<open>isPVCRisky\<close> never carries a snapshot.\<close>

lemma isPVCRisky_cases:
  "isPVCRisky rc namespace pvcName pv = (isRisky, reason, snapshotInfo) \<Longrightarrow>
   isRisky \<Longrightarrow> snapshotInfo = None"
  by (auto simp: isPVCRisky_def Let_def split: if_splits option.splits prod.splits)

subsection \<open>The namespace assessment\<close>

lemma AssessNamespaceDeletion_entries:
  assumes "PersistentVolumeClaims_List (client rc) namespace = Inr pvcs"
  shows "\<exists>a. AssessNamespaceDeletion rc namespace = Inr a
             \<and> IsRisky a = (concat (map (pvcEntries rc) pvcs) \<noteq> [])
             \<and> RiskyPVCs a = concat (map (pvcEntries rc) pvcs)"
proof (cases "pvcs = []")
  case True
  with assms show ?thesis by (simp add: AssessNamespaceDeletion_def)
next
  case False
  define es where "es = concat (map (pvcEntries rc) pvcs)"
  have loop: "AssessNamespaceDeletion_loop rc pvcs
                \<lparr> IsRisky = False, RiskyPVCs = [], Message = '''', Suggestion = '''' \<rparr>
              = addEntries emptyAssessment es"
    by (simp add: AssessNamespaceDeletion_loop_entries es_def emptyAssessment_def)
  show ?thesis
  proof (cases "es = []")
    case True
    with assms False loop show ?thesis
      by (simp add: AssessNamespaceDeletion_def addEntries_def emptyAssessment_def es_def)
  next
    case nonempty: False
    with assms False loop show ?thesis
      by (simp add: AssessNamespaceDeletion_def addEntries_def emptyAssessment_def es_def
          Let_def)
  qed
qed

lemma pvcEntries_withListing:
  "pvcEntries (withListing rc namespace pvcs) pvc = pvcEntries rc pvc"
proof -
  have r: "isPVCRisky (withListing rc namespace pvcs) = isPVCRisky rc"
    by (intro ext) (simp add: isPVCRisky_def withListing_def)
  have g: "PersistentVolumes_Get (client (withListing rc namespace pvcs))
             = PersistentVolumes_Get (client rc)"
    by (simp add: withListing_def)
  show ?thesis
    by (simp only: pvcEntries_def r g)
qed

lemma pvcEntries_fetch_fails:
  "PersistentVolumes_Get (client rc) (pvc_VolumeName pvc) = Inl err \<Longrightarrow> pvcEntries rc pvc = []"
  by (simp add: pvcEntries_def)

subsection \<open>Facts about the small cluster\<close>

lemma ex_client [simp]: "client ex_rc = ex_clientset"
  by (simp add: ex_rc_def)

lemma ex_get_pv:
  "PersistentVolumes_Get ex_clientset ''pv-1'' = Inr ex_pv1"
  "PersistentVolumes_Get ex_clientset ''pv-2'' = Inr ex_pv2"
  "PersistentVolumes_Get ex_clientset ''pv-3'' = Inr ex_pv3"
  "PersistentVolumes_Get ex_clientset ''pv-4'' = Inr ex_pv4"
  "PersistentVolumes_Get ex_clientset ''pv-gone'' = Inl (notFound ''pv-gone'')"
  "PersistentVolumes_Get ex_clientset ''pv-lost'' = Inl (notFound ''pv-lost'')"
  by (simp_all add: ex_clientset_def)

lemma ex_get_pvc:
  "PersistentVolumeClaims_Get ex_clientset ''prod'' ''web'' = Inr ex_web"
  "PersistentVolumeClaims_Get ex_clientset ''prod'' ''db'' = Inr ex_db"
  "PersistentVolumeClaims_Get ex_clientset ''staging'' ''c'' = Inr ex_c"
  "PersistentVolumeClaims_Get ex_clientset ''lost'' ''orphan'' = Inr ex_orphan"
  "PersistentVolumeClaims_Get ex_clientset ''prod'' ''ghost'' = Inl (notFound ''ghost'')"
  by (simp_all add: ex_clientset_def)

lemma ex_list_pvcs:
  "PersistentVolumeClaims_List ex_clientset ''prod'' = Inr [ex_web, ex_db]"
  "PersistentVolumeClaims_List ex_clientset ''lost'' = Inr [ex_orphan, ex_stray]"
  "PersistentVolumeClaims_List ex_clientset ''down'' = Inl ''context deadline exceeded''"
  by (simp_all add: ex_clientset_def)

lemma ex_no_snapshot_db: "noReadyRetainSnapshot ex_rc ''prod'' ''db''"
  by (simp add: noReadyRetainSnapshot_def ex_rc_def ex_checker_def ex_dynamic_def
      acceptsSnapshot_def sourceMatches_def readyFlag_def classResolvesToRetain_def
      lacksClassReference_def classLookupFails_def snapshotObject_def emptyObject_def
      classObject_def)

lemma AssessPVCDeletion_risky:
  assumes "PersistentVolumeClaims_Get (client rc) namespace name = Inr pvc"
    and "pvc_Phase pvc = ClaimBound"
    and "PersistentVolumes_Get (client rc) (pvc_VolumeName pvc) = Inr pv"
    and "pv_PersistentVolumeReclaimPolicy pv \<noteq> ''Retain''"
    and "noReadyRetainSnapshot rc namespace name"
  shows "AssessPVCDeletion rc namespace name =
           Inr \<lparr> IsRisky = True,
                 RiskyPVCs = [mkRiskyPVC name namespace (pv_Name pv)
                                (''PV has '' @ pv_PersistentVolumeReclaimPolicy pv
                                   @ '' reclaim policy, no snapshot found'') None],
                 Message = buildPVCBlockMessage
                             (mkRiskyPVC name namespace (pv_Name pv)
                                (''PV has '' @ pv_PersistentVolumeReclaimPolicy pv
                                   @ '' reclaim policy, no snapshot found'') None),
                 Suggestion = buildPVCSuggestions namespace name (pv_Name pv) \<rparr>"
proof -
  have "isPVCRisky rc namespace name pv =
          (True, ''PV has '' @ pv_PersistentVolumeReclaimPolicy pv
                 @ '' reclaim policy, no snapshot found'', None)"
    using assms(4,5) by (rule isPVCRisky_no_snapshot)
  with assms(1,2,3) show ?thesis
    by (simp add: AssessPVCDeletion_def Let_def)
qed

lemma AssessPVCDeletion_Retain:
  assumes "PersistentVolumeClaims_Get (client rc) namespace name = Inr pvc"
    and "pvc_Phase pvc = ClaimBound"
    and "PersistentVolumes_Get (client rc) (pvc_VolumeName pvc) = Inr pv"
    and "pv_PersistentVolumeReclaimPolicy pv = ''Retain''"
  shows "AssessPVCDeletion rc namespace name = Inr emptyAssessment"
proof -
  have "isPVCRisky rc namespace name pv = (False, ''PV has Retain reclaim policy'', None)"
    using assms(4) by (rule isPVCRisky_Retain)
  with assms(1,2,3) show ?thesis
    by (simp add: AssessPVCDeletion_def Let_def emptyAssessment_def)
qed

lemma ex_assess_db: "AssessPVCDeletion ex_rc ''prod'' ''db'' = Inr ex_db_assessment"
proof -
  have "AssessPVCDeletion ex_rc ''prod'' ''db'' =
          Inr \<lparr> IsRisky = True,
                RiskyPVCs = [mkRiskyPVC ''db'' ''prod'' (pv_Name ex_pv2)
                               (''PV has '' @ pv_PersistentVolumeReclaimPolicy ex_pv2
                                  @ '' reclaim policy, no snapshot found'') None],
                Message = buildPVCBlockMessage
                            (mkRiskyPVC ''db'' ''prod'' (pv_Name ex_pv2)
                               (''PV has '' @ pv_PersistentVolumeReclaimPolicy ex_pv2
                                  @ '' reclaim policy, no snapshot found'') None),
                Suggestion = buildPVCSuggestions ''prod'' ''db'' (pv_Name ex_pv2) \<rparr>"
  proof (rule AssessPVCDeletion_risky)
    show "PersistentVolumeClaims_Get (client ex_rc) ''prod'' ''db'' = Inr ex_db"
      by (simp add: ex_get_pvc)
    show "pvc_Phase ex_db = ClaimBound" by (simp add: ex_db_def ClaimBound_def)
    show "PersistentVolumes_Get (client ex_rc) (pvc_VolumeName ex_db) = Inr ex_pv2"
      by (simp add: ex_db_def ex_get_pv)
    show "pv_PersistentVolumeReclaimPolicy ex_pv2 \<noteq> ''Retain''" by (simp add: ex_pv2_def)
    show "noReadyRetainSnapshot ex_rc ''prod'' ''db''" by (rule ex_no_snapshot_db)
  qed
  also have "\<dots> = Inr ex_db_assessment"
    by (simp add: ex_db_assessment_def ex_db_risky_def mkRiskyPVC_def ex_pv2_def)
  finally show ?thesis .
qed

lemma ex_assess_lost: "AssessNamespaceDeletion ex_rc ''lost'' = Inr emptyAssessment"
  by (simp add: AssessNamespaceDeletion_def ex_list_pvcs ex_orphan_def ex_stray_def
      ClaimBound_def ex_get_pv emptyAssessment_def)

subsection \<open>The handler\<close>

lemma handle_delete_no_bypass:
  "req_Operation request = Delete \<Longrightarrow> \<not> hasBypassLabel js request \<Longrightarrow>
   handleAdmissionRequest js h request = decideByRisk h request"
  by (simp add: handleAdmissionRequest_def assessAndDecide_def)

lemma handle_delete_bypass:
  "req_Operation request = Delete \<Longrightarrow> hasBypassLabel js request \<Longrightarrow>
   handleAdmissionRequest js h request =
     allowResponse (req_UID request) ''Deletion allowed via bypass label pv-safe.io/force-delete''"
  by (simp add: handleAdmissionRequest_def assessAndDecide_def allowResponse_def
      messageStatus_def BypassLabel_def)

lemma decideByRisk_error:
  "assessKind h request = Some (Inl err) \<Longrightarrow>
   decideByRisk h request =
     allowResponse (req_UID request) (''Risk assessment error (allowed): '' @ err)"
  by (simp add: decideByRisk_def allowResponse_def messageStatus_def)

lemma decideByRisk_risky:
  "assessKind h request = Some (Inr a) \<Longrightarrow> IsRisky a \<Longrightarrow>
   decideByRisk h request = denyResponse (req_UID request) (Message a @ Suggestion a)"
  by (simp add: decideByRisk_def denyResponse_def StatusReasonForbidden_def)

lemma decideByRisk_safe:
  "assessKind h request = Some (Inr a) \<Longrightarrow> \<not> IsRisky a \<Longrightarrow>
   decideByRisk h request =
     allowResponse (req_UID request) ''Deletion allowed - safe operation''"
  by (simp add: decideByRisk_def allowResponse_def messageStatus_def)

lemma decideByRisk_denied:
  "\<not> resp_Allowed (decideByRisk h request) \<Longrightarrow>
   \<exists>a. assessKind h request = Some (Inr a) \<and> IsRisky a"
  by (auto simp: decideByRisk_def split: option.splits sum.splits if_splits)

lemma assessKind_PVC:
  "req_Kind request = ''PersistentVolumeClaim'' \<Longrightarrow>
   assessKind h request =
     Some (AssessPVCDeletion (handler_RiskCalculator h) (req_Namespace request)
             (req_Name request))"
  by (simp add: assessKind_def)

lemma assessKind_PV:
  "req_Kind request = ''PersistentVolume'' \<Longrightarrow>
   assessKind h request = Some (AssessPVDeletion (handler_RiskCalculator h) (req_Name request))"
  by (simp add: assessKind_def)

lemma assessKind_Namespace:
  "req_Kind request = ''Namespace'' \<Longrightarrow>
   assessKind h request =
     Some (AssessNamespaceDeletion (handler_RiskCalculator h) (req_Name request))"
  by (simp add: assessKind_def)

lemma Contains_no_snapshot_found:
  assumes "risky_Reason entry = ''PV has '' @ policy @ '' reclaim policy, no snapshot found''"
  shows "Contains (buildPVCBlockMessage entry) ''no snapshot found''"
proof -
  have split: "'' reclaim policy, no snapshot found''
                 = '' reclaim policy, '' @ ''no snapshot found''"
    by simp
  have "buildPVCBlockMessage entry =
          (''DELETION BLOCKED: PVC '' @ sq @ risky_Namespace entry @ ''/'' @ risky_Name entry
             @ sq @ '' would lose data permanently'' @ nl @ nl @ ''Reason: '' @ ''PV has ''
             @ policy @ '' reclaim policy, '')
          @ ''no snapshot found'' @ nl"
    unfolding buildPVCBlockMessage_def assms split by simp
  then show ?thesis
    unfolding Contains_def by (metis sublist_appendI)
qed

lemma messages_without_Retain:
  "\<not> Contains ''Deletion allowed - safe operation'' ''Retain''"
  "\<not> Contains ''Deletion allowed via bypass label pv-safe.io/force-delete'' ''Retain''"
  unfolding Contains_def by code_simp+

lemma Contains_BypassLabel:
  "Contains ''Deletion allowed via bypass label pv-safe.io/force-delete'' BypassLabel"
proof -
  have "''Deletion allowed via bypass label pv-safe.io/force-delete''
          = ''Deletion allowed via bypass label '' @ BypassLabel"
    by (simp add: BypassLabel_def)
  then show ?thesis
    unfolding Contains_def by (metis sublist_append_leftI)
qed

lemma ex_bypass:
  "hasBypassLabel ex_json (ex_request kind namespace name (Some ''<force-delete=true>''))"
  "\<not> hasBypassLabel ex_json (ex_request kind namespace name (Some ''<force-delete=True>''))"
  "\<not> hasBypassLabel ex_json (ex_request kind namespace name (Some ''<app=db>''))"
  "\<not> hasBypassLabel ex_json (ex_request kind namespace name (Some ''<no labels>''))"
  "\<not> hasBypassLabel ex_json (ex_request kind namespace name (Some ''{''))"
  "\<not> hasBypassLabel ex_json (ex_request kind namespace name None)"
  by (simp_all add: hasBypassLabel_def ex_request_def ex_json_def emptyObject_def
      BypassLabel_def)

lemma ex_request_fields [simp]:
  "req_UID (ex_request kind namespace name raw) = ''uid-1''"
  "req_Operation (ex_request kind namespace name raw) = Delete"
  "req_Kind (ex_request kind namespace name raw) = kind"
  "req_Namespace (ex_request kind namespace name raw) = namespace"
  "req_Name (ex_request kind namespace name raw) = name"
  "req_OldObject_Raw (ex_request kind namespace name raw) = raw"
  by (simp_all add: ex_request_def Delete_def)

lemma ex_handler_rc [simp]: "handler_RiskCalculator ex_handler = ex_rc"
  by (simp add: ex_handler_def)

section \<open>The claims\<close>

subsection \<open>C1: a PVC on a Delete volume without a snapshot\<close>

text \<open>
  Claim C1 says that every DELETE request on a PVC that is Bound to a PV with reclaim
  policy Delete, with no ready snapshot of a Retain class, is denied. The bypass check of
  \<^verbatim>\<open>assessAndDecide\<close> comes before the risk assessment: the request to delete \<^verbatim>\<open>prod/db\<close>
  whose prior object carries \<^verbatim>\<open>pv-safe.io/force-delete=true\<close> meets every condition of
  the claim and is allowed.
\<close>

theorem pvc_delete_without_snapshot_counterexample:
  "req_Operation (ex_request ''PersistentVolumeClaim'' ''prod'' ''db''
                    (Some ''<force-delete=true>'')) = Delete
   \<and> req_Kind (ex_request ''PersistentVolumeClaim'' ''prod'' ''db''
                 (Some ''<force-delete=true>'')) = ''PersistentVolumeClaim''
   \<and> PersistentVolumeClaims_Get (client (handler_RiskCalculator ex_handler)) ''prod'' ''db''
       = Inr ex_db
   \<and> pvc_Phase ex_db = ClaimBound
   \<and> PersistentVolumes_Get (client (handler_RiskCalculator ex_handler)) (pvc_VolumeName ex_db)
       = Inr ex_pv2
   \<and> pv_PersistentVolumeReclaimPolicy ex_pv2 = PersistentVolumeReclaimDelete
   \<and> noReadyRetainSnapshot (handler_RiskCalculator ex_handler) ''prod'' ''db''
   \<and> resp_Allowed (handleAdmissionRequest ex_json ex_handler
                      (ex_request ''PersistentVolumeClaim'' ''prod'' ''db''
                         (Some ''<force-delete=true>'')))"
proof -
  have "handleAdmissionRequest ex_json ex_handler
          (ex_request ''PersistentVolumeClaim'' ''prod'' ''db'' (Some ''<force-delete=true>''))
        = allowResponse ''uid-1'' ''Deletion allowed via bypass label pv-safe.io/force-delete''"
    using handle_delete_bypass [OF _ ex_bypass(1)] by simp
  then show ?thesis
    by (simp add: allowResponse_def ex_get_pvc ex_get_pv ex_db_def ex_pv2_def ClaimBound_def
        PersistentVolumeReclaimDelete_def ex_no_snapshot_db)
qed

text \<open>
  Claim C1, amended. For every DELETE admission request on a PVC whose prior object does
  not carry the bypass label, where the PVC is Bound to a PV whose reclaim policy is Delete
  and no ready snapshot with a Retain-policy snapshot class exists, the verdict is deny:
  \<^verbatim>\<open>Allowed = false\<close> with result status "Failure", reason "Forbidden", code 403, and a
  message that is the engine's block message (which contains "no snapshot found") followed
  by the engine's remediation suggestion.
\<close>

theorem pvc_delete_without_snapshot_denied:
  assumes "req_Operation request = Delete"
    and "req_Kind request = ''PersistentVolumeClaim''"
    and "\<not> hasBypassLabel js request"
    and "PersistentVolumeClaims_Get (client (handler_RiskCalculator h))
           (req_Namespace request) (req_Name request) = Inr pvc"
    and "pvc_Phase pvc = ClaimBound"
    and "PersistentVolumes_Get (client (handler_RiskCalculator h)) (pvc_VolumeName pvc) = Inr pv"
    and "pv_PersistentVolumeReclaimPolicy pv = PersistentVolumeReclaimDelete"
    and "noReadyRetainSnapshot (handler_RiskCalculator h) (req_Namespace request)
           (req_Name request)"
  shows "\<exists>a. AssessPVCDeletion (handler_RiskCalculator h) (req_Namespace request)
               (req_Name request) = Inr a
             \<and> IsRisky a
             \<and> Contains (Message a) ''no snapshot found''
             \<and> Suggestion a = buildPVCSuggestions (req_Namespace request) (req_Name request)
                                 (pv_Name pv)
             \<and> handleAdmissionRequest js h request =
                 \<lparr> resp_UID = req_UID request, resp_Allowed = False,
                   resp_Result = Some \<lparr> st_Status = ''Failure'',
                                        st_Message = Message a @ Suggestion a,
                                        st_Reason = ''Forbidden'', st_Code = 403 \<rparr> \<rparr>"
proof -
  let ?rc = "handler_RiskCalculator h"
  let ?entry = "mkRiskyPVC (req_Name request) (req_Namespace request) (pv_Name pv)
                  (''PV has '' @ pv_PersistentVolumeReclaimPolicy pv
                     @ '' reclaim policy, no snapshot found'') None"
  let ?a = "\<lparr> IsRisky = True, RiskyPVCs = [?entry], Message = buildPVCBlockMessage ?entry,
              Suggestion = buildPVCSuggestions (req_Namespace request) (req_Name request)
                             (pv_Name pv) \<rparr>"
  have policy: "pv_PersistentVolumeReclaimPolicy pv \<noteq> ''Retain''"
    using assms(7) by (simp add: PersistentVolumeReclaimDelete_def)
  have engine: "AssessPVCDeletion ?rc (req_Namespace request) (req_Name request) = Inr ?a"
    using assms(4,5,6) policy assms(8) by (rule AssessPVCDeletion_risky)
  have "risky_Reason ?entry = ''PV has '' @ pv_PersistentVolumeReclaimPolicy pv
                               @ '' reclaim policy, no snapshot found''"
    by (simp add: mkRiskyPVC_def)
  then have contains: "Contains (Message ?a) ''no snapshot found''"
    using Contains_no_snapshot_found by simp
  have "assessKind h request = Some (Inr ?a)"
    using assessKind_PVC [OF assms(2)] engine by simp
  then have "decideByRisk h request = denyResponse (req_UID request) (Message ?a @ Suggestion ?a)"
    by (rule decideByRisk_risky) simp
  then have "handleAdmissionRequest js h request =
               denyResponse (req_UID request) (Message ?a @ Suggestion ?a)"
    using handle_delete_no_bypass [OF assms(1,3)] by simp
  with engine contains show ?thesis
    by (intro exI [of _ ?a]) (simp add: denyResponse_def)
qed

text \<open>The same request without the label is denied.\<close>

theorem pvc_delete_without_snapshot_denied_witness:
  "req_Operation (ex_request ''PersistentVolumeClaim'' ''prod'' ''db'' None) = Delete
   \<and> \<not> hasBypassLabel ex_json (ex_request ''PersistentVolumeClaim'' ''prod'' ''db'' None)
   \<and> PersistentVolumeClaims_Get (client (handler_RiskCalculator ex_handler)) ''prod'' ''db''
       = Inr ex_db
   \<and> pvc_Phase ex_db = ClaimBound
   \<and> PersistentVolumes_Get (client (handler_RiskCalculator ex_handler)) (pvc_VolumeName ex_db)
       = Inr ex_pv2
   \<and> pv_PersistentVolumeReclaimPolicy ex_pv2 = PersistentVolumeReclaimDelete
   \<and> noReadyRetainSnapshot (handler_RiskCalculator ex_handler) ''prod'' ''db''
   \<and> handleAdmissionRequest ex_json ex_handler
         (ex_request ''PersistentVolumeClaim'' ''prod'' ''db'' None) =
       \<lparr> resp_UID = ''uid-1'', resp_Allowed = False,
         resp_Result = Some \<lparr> st_Status = ''Failure'',
                              st_Message = Message ex_db_assessment
                                             @ Suggestion ex_db_assessment,
                              st_Reason = ''Forbidden'', st_Code = 403 \<rparr> \<rparr>"
proof -
  let ?r = "ex_request ''PersistentVolumeClaim'' ''prod'' ''db'' None"
  have o: "req_Operation ?r = Delete" and k: "req_Kind ?r = ''PersistentVolumeClaim''"
    by simp_all
  have b: "\<not> hasBypassLabel ex_json ?r" by (rule ex_bypass)
  have c: "PersistentVolumeClaims_Get (client (handler_RiskCalculator ex_handler))
             (req_Namespace ?r) (req_Name ?r) = Inr ex_db"
    by (simp add: ex_get_pvc)
  have p: "pvc_Phase ex_db = ClaimBound" by (simp add: ex_db_def ClaimBound_def)
  have v: "PersistentVolumes_Get (client (handler_RiskCalculator ex_handler))
             (pvc_VolumeName ex_db) = Inr ex_pv2"
    by (simp add: ex_db_def ex_get_pv)
  have d: "pv_PersistentVolumeReclaimPolicy ex_pv2 = PersistentVolumeReclaimDelete"
    by (simp add: ex_pv2_def PersistentVolumeReclaimDelete_def)
  have n: "noReadyRetainSnapshot (handler_RiskCalculator ex_handler) (req_Namespace ?r)
             (req_Name ?r)"
    using ex_no_snapshot_db by simp
  from pvc_delete_without_snapshot_denied [OF o k b c p v d n] ex_assess_db
  have "handleAdmissionRequest ex_json ex_handler ?r =
       \<lparr> resp_UID = ''uid-1'', resp_Allowed = False,
         resp_Result = Some \<lparr> st_Status = ''Failure'',
                              st_Message = Message ex_db_assessment
                                             @ Suggestion ex_db_assessment,
                              st_Reason = ''Forbidden'', st_Code = 403 \<rparr> \<rparr>"
    by auto
  with o b c p v d n show ?thesis by simp
qed

subsection \<open>C2: a bound PVC whose PV cannot be fetched\<close>

text \<open>
  Claim C2 says that a namespace assessment records a Bound PVC whose bound-PV fetch fails
  as risky, with the reason "could not verify PV; refusing", so that the namespace verdict
  is risky. The loop of \<^verbatim>\<open>AssessNamespaceDeletion\<close> does the opposite: on a fetch error
  it goes on to the next PVC. In namespace \<^verbatim>\<open>lost\<close> both PVCs are Bound, neither PV can
  be fetched, and the assessment is not risky, with an empty risky list.
\<close>

theorem namespace_pv_fetch_failure_counterexample:
  "PersistentVolumeClaims_List (client ex_rc) ''lost'' = Inr [ex_orphan, ex_stray]
   \<and> pvc_Phase ex_orphan = ClaimBound
   \<and> PersistentVolumes_Get (client ex_rc) (pvc_VolumeName ex_orphan) = Inl (notFound ''pv-gone'')
   \<and> pvc_Phase ex_stray = ClaimBound
   \<and> PersistentVolumes_Get (client ex_rc) (pvc_VolumeName ex_stray) = Inl (notFound ''pv-lost'')
   \<and> AssessNamespaceDeletion ex_rc ''lost'' =
       Inr \<lparr> IsRisky = False, RiskyPVCs = [], Message = '''', Suggestion = '''' \<rparr>"
  using ex_assess_lost
  by (simp add: ex_list_pvcs ex_orphan_def ex_stray_def ClaimBound_def ex_get_pv
      emptyAssessment_def)

text \<open>
  Claim C2, amended. During a namespace assessment a Bound PVC whose bound-PV fetch fails
  is skipped: the assessment succeeds, and its verdict and its risky list are those that
  the loop computes from the other PVCs of the listing. In particular the verdict is not
  risky, with an empty risky list, when every other Bound PVC of the listing has a PV that
  cannot be fetched either.
\<close>

theorem namespace_pv_fetch_failure_skipped:
  assumes "PersistentVolumeClaims_List (client rc) namespace = Inr (pre @ pvc # post)"
    and "pvc_Phase pvc = ClaimBound"
    and "PersistentVolumes_Get (client rc) (pvc_VolumeName pvc) = Inl err"
  shows "\<exists>a. AssessNamespaceDeletion rc namespace = Inr a
             \<and> IsRisky a = IsRisky (AssessNamespaceDeletion_loop rc (pre @ post) emptyAssessment)
             \<and> RiskyPVCs a
                 = RiskyPVCs (AssessNamespaceDeletion_loop rc (pre @ post) emptyAssessment)
             \<and> ((\<forall>p \<in> set (pre @ post). pvc_Phase p = ClaimBound \<longrightarrow>
                    isl (PersistentVolumes_Get (client rc) (pvc_VolumeName p)))
                  \<longrightarrow> \<not> IsRisky a \<and> RiskyPVCs a = [])"
proof -
  let ?es = "concat (map (pvcEntries rc) (pre @ post))"
  have skip: "concat (map (pvcEntries rc) (pre @ pvc # post)) = ?es"
    using assms(3) by (simp add: pvcEntries_fetch_fails)
  obtain a where a: "AssessNamespaceDeletion rc namespace = Inr a"
    "IsRisky a = (?es \<noteq> [])" "RiskyPVCs a = ?es"
    using AssessNamespaceDeletion_entries [OF assms(1)] skip by auto
  have loop: "AssessNamespaceDeletion_loop rc (pre @ post) emptyAssessment
                = addEntries emptyAssessment ?es"
    by (rule AssessNamespaceDeletion_loop_entries)
  have r: "IsRisky a = IsRisky (AssessNamespaceDeletion_loop rc (pre @ post) emptyAssessment)"
    unfolding loop by (simp add: a(2) addEntries_empty)
  have l: "RiskyPVCs a = RiskyPVCs (AssessNamespaceDeletion_loop rc (pre @ post) emptyAssessment)"
    unfolding loop by (simp add: a(3) addEntries_empty)
  have none: "\<not> IsRisky a \<and> RiskyPVCs a = []"
    if h: "\<forall>p \<in> set (pre @ post). pvc_Phase p = ClaimBound \<longrightarrow>
             isl (PersistentVolumes_Get (client rc) (pvc_VolumeName p))"
  proof -
    have "pvcEntries rc p = []" if "p \<in> set (pre @ post)" for p
      using h that by (auto simp: pvcEntries_def isl_def)
    then have "?es = []" by simp
    then show ?thesis by (simp add: a(2,3))
  qed
  from a(1) r l none show ?thesis by blast
qed

text \<open>
  Namespace \<^verbatim>\<open>lost\<close> again, with \<^verbatim>\<open>orphan\<close> as the skipped PVC and \<^verbatim>\<open>stray\<close> after it;
  and namespace \<^verbatim>\<open>prod\<close> with \<^verbatim>\<open>orphan\<close> listed between \<^verbatim>\<open>web\<close> and \<^verbatim>\<open>db\<close>, where
  the verdict is the one of \<^verbatim>\<open>web\<close> and \<^verbatim>\<open>db\<close> alone.
\<close>

theorem namespace_pv_fetch_failure_skipped_witness:
  "PersistentVolumeClaims_List (client ex_rc) ''lost'' = Inr ([] @ ex_orphan # [ex_stray])
   \<and> pvc_Phase ex_orphan = ClaimBound
   \<and> PersistentVolumes_Get (client ex_rc) (pvc_VolumeName ex_orphan) = Inl (notFound ''pv-gone'')
   \<and> pvc_Phase ex_stray = ClaimBound
   \<and> isl (PersistentVolumes_Get (client ex_rc) (pvc_VolumeName ex_stray))
   \<and> (\<exists>a. AssessNamespaceDeletion ex_rc ''lost'' = Inr a \<and> \<not> IsRisky a \<and> RiskyPVCs a = [])
   \<and> (\<exists>a. AssessNamespaceDeletion (withListing ex_rc ''prod'' ([ex_web] @ ex_orphan # [ex_db]))
             ''prod'' = Inr a
          \<and> RiskyPVCs a
              = RiskyPVCs (AssessNamespaceDeletion_loop
                             (withListing ex_rc ''prod'' ([ex_web] @ ex_orphan # [ex_db]))
                             ([ex_web] @ [ex_db]) emptyAssessment))"
proof -
  let ?rc = "withListing ex_rc ''prod'' ([ex_web] @ ex_orphan # [ex_db])"
  have l: "PersistentVolumeClaims_List (client ex_rc) ''lost'' = Inr ([] @ ex_orphan # [ex_stray])"
    by (simp add: ex_list_pvcs)
  have b: "pvc_Phase ex_orphan = ClaimBound"
    by (simp add: ex_orphan_def ClaimBound_def)
  have g: "PersistentVolumes_Get (client ex_rc) (pvc_VolumeName ex_orphan)
             = Inl (notFound ''pv-gone'')"
    by (simp add: ex_orphan_def ex_get_pv)
  have s: "\<forall>p \<in> set ([] @ [ex_stray]). pvc_Phase p = ClaimBound \<longrightarrow>
             isl (PersistentVolumes_Get (client ex_rc) (pvc_VolumeName p))"
    by (simp add: ex_stray_def ex_get_pv)
  have l': "PersistentVolumeClaims_List (client ?rc) ''prod''
              = Inr ([ex_web] @ ex_orphan # [ex_db])"
    by (simp add: withListing_def)
  have g': "PersistentVolumes_Get (client ?rc) (pvc_VolumeName ex_orphan)
              = Inl (notFound ''pv-gone'')"
    by (simp add: withListing_def ex_orphan_def ex_get_pv)
  from namespace_pv_fetch_failure_skipped [OF l b g] s
  have 1: "\<exists>a. AssessNamespaceDeletion ex_rc ''lost'' = Inr a \<and> \<not> IsRisky a \<and> RiskyPVCs a = []"
    by blast
  from namespace_pv_fetch_failure_skipped [OF l' b g']
  have 2: "\<exists>a. AssessNamespaceDeletion ?rc ''prod'' = Inr a
          \<and> RiskyPVCs a
              = RiskyPVCs (AssessNamespaceDeletion_loop ?rc ([ex_web] @ [ex_db]) emptyAssessment)"
    by blast
  have s': "pvc_Phase ex_stray = ClaimBound"
    "isl (PersistentVolumes_Get (client ex_rc) (pvc_VolumeName ex_stray))"
    by (simp_all add: ex_stray_def ClaimBound_def ex_get_pv)
  from l b g s' 1 2 show ?thesis by blast
qed

subsection \<open>C3: the bypass label\<close>

text \<open>
  Claim C3. For every DELETE admission request whose prior object parses and carries the
  label \<^verbatim>\<open>pv-safe.io/force-delete\<close> with the exact string value \<^verbatim>\<open>true\<close>, the verdict is
  allow, with a message that names the bypass label. When the prior object parses and the
  label has any other value (\<^verbatim>\<open>True\<close> for one) or is absent (the object has no labels,
  or labels without this key), and when the prior-object bytes fail to parse, there is no
  bypass and the response is the one the risk assessment decides.
\<close>

theorem bypass_label_exact_value:
  assumes "req_Operation request = Delete"
  shows "(\<forall>raw obj labels.
             req_OldObject_Raw request = Some raw
             \<and> Unmarshal_Unstructured js raw = Inr obj \<and> GetLabels obj = Some labels
             \<and> labels ''pv-safe.io/force-delete'' = Some ''true'' \<longrightarrow>
            handleAdmissionRequest js h request =
              \<lparr> resp_UID = req_UID request, resp_Allowed = True,
                resp_Result = Some \<lparr> st_Status = '''',
                    st_Message = ''Deletion allowed via bypass label pv-safe.io/force-delete'',
                    st_Reason = '''', st_Code = 0 \<rparr> \<rparr>
            \<and> Contains ''Deletion allowed via bypass label pv-safe.io/force-delete''
                 BypassLabel)
       \<and> (\<forall>raw obj.
             req_OldObject_Raw request = Some raw
             \<and> Unmarshal_Unstructured js raw = Inr obj
             \<and> (\<forall>labels. GetLabels obj = Some labels \<longrightarrow>
                    labels ''pv-safe.io/force-delete'' \<noteq> Some ''true'') \<longrightarrow>
            \<not> hasBypassLabel js request
            \<and> handleAdmissionRequest js h request = decideByRisk h request)
       \<and> (\<forall>raw err.
             req_OldObject_Raw request = Some raw
             \<and> Unmarshal_Unstructured js raw = Inl err \<longrightarrow>
            \<not> hasBypassLabel js request
            \<and> handleAdmissionRequest js h request = decideByRisk h request)"
proof (intro conjI allI impI)
  fix raw obj labels
  assume "req_OldObject_Raw request = Some raw
            \<and> Unmarshal_Unstructured js raw = Inr obj \<and> GetLabels obj = Some labels
            \<and> labels ''pv-safe.io/force-delete'' = Some ''true''"
  then have "hasBypassLabel js request"
    by (simp add: hasBypassLabel_def BypassLabel_def)
  with assms show "handleAdmissionRequest js h request =
      \<lparr> resp_UID = req_UID request, resp_Allowed = True,
        resp_Result = Some \<lparr> st_Status = '''',
            st_Message = ''Deletion allowed via bypass label pv-safe.io/force-delete'',
            st_Reason = '''', st_Code = 0 \<rparr> \<rparr>"
    using handle_delete_bypass by (simp add: allowResponse_def)
next
  show "Contains ''Deletion allowed via bypass label pv-safe.io/force-delete'' BypassLabel"
    by (rule Contains_BypassLabel)
next
  fix raw obj
  assume "req_OldObject_Raw request = Some raw
            \<and> Unmarshal_Unstructured js raw = Inr obj
            \<and> (\<forall>labels. GetLabels obj = Some labels \<longrightarrow>
                   labels ''pv-safe.io/force-delete'' \<noteq> Some ''true'')"
  then show no: "\<not> hasBypassLabel js request"
    by (auto simp: hasBypassLabel_def BypassLabel_def split: option.splits)
  with assms show "handleAdmissionRequest js h request = decideByRisk h request"
    by (rule handle_delete_no_bypass)
next
  fix raw err
  assume "req_OldObject_Raw request = Some raw \<and> Unmarshal_Unstructured js raw = Inl err"
  then show no: "\<not> hasBypassLabel js request"
    by (simp add: hasBypassLabel_def)
  with assms show "handleAdmissionRequest js h request = decideByRisk h request"
    by (rule handle_delete_no_bypass)
qed

text \<open>
  Deleting \<^verbatim>\<open>prod/db\<close> with the label set to \<^verbatim>\<open>true\<close>, set to \<^verbatim>\<open>True\<close>, absent among
  other labels, and with bytes that do not parse.
\<close>

theorem bypass_label_exact_value_witness:
  "handleAdmissionRequest ex_json ex_handler
     (ex_request ''PersistentVolumeClaim'' ''prod'' ''db'' (Some ''<force-delete=true>''))
     = \<lparr> resp_UID = ''uid-1'', resp_Allowed = True,
         resp_Result = Some \<lparr> st_Status = '''',
             st_Message = ''Deletion allowed via bypass label pv-safe.io/force-delete'',
             st_Reason = '''', st_Code = 0 \<rparr> \<rparr>
   \<and> handleAdmissionRequest ex_json ex_handler
       (ex_request ''PersistentVolumeClaim'' ''prod'' ''db'' (Some ''<force-delete=True>''))
     = decideByRisk ex_handler
         (ex_request ''PersistentVolumeClaim'' ''prod'' ''db'' (Some ''<force-delete=True>''))
   \<and> handleAdmissionRequest ex_json ex_handler
       (ex_request ''PersistentVolumeClaim'' ''prod'' ''db'' (Some ''<app=db>''))
     = decideByRisk ex_handler
         (ex_request ''PersistentVolumeClaim'' ''prod'' ''db'' (Some ''<app=db>''))
   \<and> handleAdmissionRequest ex_json ex_handler
       (ex_request ''PersistentVolumeClaim'' ''prod'' ''db'' (Some ''{''))
     = decideByRisk ex_handler (ex_request ''PersistentVolumeClaim'' ''prod'' ''db'' (Some ''{''))"
proof -
  have u: "Unmarshal_Unstructured ex_json ''<force-delete=true>''
             = Inr (emptyObject\<lparr> GetLabels := Some [BypassLabel \<mapsto> ''true''] \<rparr>)"
    "Unmarshal_Unstructured ex_json ''<force-delete=True>''
             = Inr (emptyObject\<lparr> GetLabels := Some [BypassLabel \<mapsto> ''True''] \<rparr>)"
    "Unmarshal_Unstructured ex_json ''<app=db>''
             = Inr (emptyObject\<lparr> GetLabels := Some [''app'' \<mapsto> ''db''] \<rparr>)"
    "Unmarshal_Unstructured ex_json ''{'' = Inl ''invalid character''"
    by (simp_all add: ex_json_def)
  have l: "[BypassLabel \<mapsto> ''true''] ''pv-safe.io/force-delete'' = Some ''true''"
    "[BypassLabel \<mapsto> ''True''] ''pv-safe.io/force-delete'' \<noteq> Some ''true''"
    "[''app'' \<mapsto> ''db''] ''pv-safe.io/force-delete'' \<noteq> Some ''true''"
    by (simp_all add: BypassLabel_def)
  have o: "req_Operation (ex_request kind namespace name old) = Delete"
    for kind namespace name old
    by simp
  note t = bypass_label_exact_value [OF o, of _ _ _ _ ex_json ex_handler]
  show ?thesis
    using t [of "''PersistentVolumeClaim''" "''prod''" "''db''" "Some ''<force-delete=true>''"]
          t [of "''PersistentVolumeClaim''" "''prod''" "''db''" "Some ''<force-delete=True>''"]
          t [of "''PersistentVolumeClaim''" "''prod''" "''db''" "Some ''<app=db>''"]
          t [of "''PersistentVolumeClaim''" "''prod''" "''db''" "Some ''{''"]
          l
    by (simp add: u)
qed

subsection \<open>C4: deleting a PV\<close>

text \<open>
  Claim C4 says that \<^verbatim>\<open>AssessPVDeletion\<close> on a PV with reclaim policy Retain returns not
  risky with the message "PV has Retain reclaim policy". The function sets no message when
  the PV is not risky (that text is the reason \<^verbatim>\<open>isPVCRisky\<close> returns on the PVC path):
  for \<^verbatim>\<open>pv-1\<close> the message is empty.
\<close>

theorem AssessPVDeletion_Retain_message_counterexample:
  "PersistentVolumes_Get (client ex_rc) ''pv-1'' = Inr ex_pv1
   \<and> pv_PersistentVolumeReclaimPolicy ex_pv1 = PersistentVolumeReclaimRetain
   \<and> AssessPVDeletion ex_rc ''pv-1'' =
       Inr \<lparr> IsRisky = False, RiskyPVCs = [], Message = '''', Suggestion = '''' \<rparr>
   \<and> Message \<lparr> IsRisky = False, RiskyPVCs = [], Message = '''', Suggestion = '''' \<rparr>
       \<noteq> ''PV has Retain reclaim policy''"
  by (simp add: AssessPVDeletion_def ex_get_pv ex_pv1_def isPVRisky_def
      PersistentVolumeReclaimRetain_def)

text \<open>
  Claim C4, amended. \<^verbatim>\<open>AssessPVDeletion\<close> on a successfully fetched PV returns not risky,
  with an empty message, an empty suggestion and an empty risky list, when the PV's reclaim
  policy is Retain; it returns risky when the policy is Delete, and risky when the policy
  is any other value, the unset one included. A risky result carries one entry naming the
  PV and the reason "PV has <policy> reclaim policy, no snapshot found".
\<close>

theorem AssessPVDeletion_by_policy:
  assumes "PersistentVolumes_Get (client rc) pvName = Inr pv"
  shows "(pv_PersistentVolumeReclaimPolicy pv = PersistentVolumeReclaimRetain \<longrightarrow>
            AssessPVDeletion rc pvName =
              Inr \<lparr> IsRisky = False, RiskyPVCs = [], Message = '''', Suggestion = '''' \<rparr>)
       \<and> (pv_PersistentVolumeReclaimPolicy pv \<noteq> PersistentVolumeReclaimRetain \<longrightarrow>
            (\<exists>a entry. AssessPVDeletion rc pvName = Inr a \<and> IsRisky a
               \<and> RiskyPVCs a = [entry]
               \<and> risky_PVName entry = pv_Name pv
               \<and> risky_Reason entry = ''PV has '' @ pv_PersistentVolumeReclaimPolicy pv
                                        @ '' reclaim policy, no snapshot found''))"
  using assms
  by (simp add: AssessPVDeletion_def isPVRisky_def Let_def)

text \<open>\<^verbatim>\<open>pv-1\<close> is Retain, \<^verbatim>\<open>pv-2\<close> is Delete, and \<^verbatim>\<open>pv-4\<close> has no policy set.\<close>

theorem AssessPVDeletion_by_policy_witness:
  "PersistentVolumes_Get (client ex_rc) ''pv-1'' = Inr ex_pv1
   \<and> pv_PersistentVolumeReclaimPolicy ex_pv1 = PersistentVolumeReclaimRetain
   \<and> AssessPVDeletion ex_rc ''pv-1'' =
       Inr \<lparr> IsRisky = False, RiskyPVCs = [], Message = '''', Suggestion = '''' \<rparr>
   \<and> PersistentVolumes_Get (client ex_rc) ''pv-2'' = Inr ex_pv2
   \<and> pv_PersistentVolumeReclaimPolicy ex_pv2 = PersistentVolumeReclaimDelete
   \<and> (\<exists>a. AssessPVDeletion ex_rc ''pv-2'' = Inr a \<and> IsRisky a)
   \<and> PersistentVolumes_Get (client ex_rc) ''pv-4'' = Inr ex_pv4
   \<and> pv_PersistentVolumeReclaimPolicy ex_pv4 \<noteq> PersistentVolumeReclaimRetain
   \<and> pv_PersistentVolumeReclaimPolicy ex_pv4 \<noteq> PersistentVolumeReclaimDelete
   \<and> (\<exists>a. AssessPVDeletion ex_rc ''pv-4'' = Inr a \<and> IsRisky a)"
proof -
  have g1: "PersistentVolumes_Get (client ex_rc) ''pv-1'' = Inr ex_pv1"
    and g2: "PersistentVolumes_Get (client ex_rc) ''pv-2'' = Inr ex_pv2"
    and g4: "PersistentVolumes_Get (client ex_rc) ''pv-4'' = Inr ex_pv4"
    by (simp_all add: ex_get_pv)
  have p1: "pv_PersistentVolumeReclaimPolicy ex_pv1 = PersistentVolumeReclaimRetain"
    and p2: "pv_PersistentVolumeReclaimPolicy ex_pv2 = PersistentVolumeReclaimDelete"
    and p2': "pv_PersistentVolumeReclaimPolicy ex_pv2 \<noteq> PersistentVolumeReclaimRetain"
    and p4: "pv_PersistentVolumeReclaimPolicy ex_pv4 \<noteq> PersistentVolumeReclaimRetain"
    and p4': "pv_PersistentVolumeReclaimPolicy ex_pv4 \<noteq> PersistentVolumeReclaimDelete"
    by (simp_all add: ex_pv1_def ex_pv2_def ex_pv4_def PersistentVolumeReclaimRetain_def
        PersistentVolumeReclaimDelete_def)
  from AssessPVDeletion_by_policy [OF g1] AssessPVDeletion_by_policy [OF g2]
    AssessPVDeletion_by_policy [OF g4] g1 g2 g4 p1 p2 p2' p4 p4'
  show ?thesis by auto
qed

subsection \<open>C5: a PVC on a Retain volume\<close>

text \<open>
  Claim C5 says that the response to a DELETE request on a PVC that is Bound to a Retain PV
  is allow with a message containing "Retain". The verdict is allow, but the handler puts
  its own fixed text in the response: for \<^verbatim>\<open>prod/web\<close> the message is
  "Deletion allowed - safe operation", which does not contain "Retain".
\<close>

theorem pvc_delete_on_retain_message_counterexample:
  "req_Operation (ex_request ''PersistentVolumeClaim'' ''prod'' ''web'' None) = Delete
   \<and> req_Kind (ex_request ''PersistentVolumeClaim'' ''prod'' ''web'' None)
       = ''PersistentVolumeClaim''
   \<and> PersistentVolumeClaims_Get (client (handler_RiskCalculator ex_handler)) ''prod'' ''web''
       = Inr ex_web
   \<and> pvc_Phase ex_web = ClaimBound
   \<and> PersistentVolumes_Get (client (handler_RiskCalculator ex_handler)) (pvc_VolumeName ex_web)
       = Inr ex_pv1
   \<and> pv_PersistentVolumeReclaimPolicy ex_pv1 = PersistentVolumeReclaimRetain
   \<and> resp_Result (handleAdmissionRequest ex_json ex_handler
                     (ex_request ''PersistentVolumeClaim'' ''prod'' ''web'' None))
       = Some (messageStatus ''Deletion allowed - safe operation'')
   \<and> \<not> Contains (st_Message (messageStatus ''Deletion allowed - safe operation'')) ''Retain''"
proof -
  let ?r = "ex_request ''PersistentVolumeClaim'' ''prod'' ''web'' None"
  have c: "PersistentVolumeClaims_Get (client ex_rc) ''prod'' ''web'' = Inr ex_web"
    by (simp add: ex_get_pvc)
  have p: "pvc_Phase ex_web = ClaimBound" by (simp add: ex_web_def ClaimBound_def)
  have v: "PersistentVolumes_Get (client ex_rc) (pvc_VolumeName ex_web) = Inr ex_pv1"
    by (simp add: ex_web_def ex_get_pv)
  have t: "pv_PersistentVolumeReclaimPolicy ex_pv1 = ''Retain''"
    by (simp add: ex_pv1_def)
  have "AssessPVCDeletion ex_rc ''prod'' ''web'' = Inr emptyAssessment"
    using c p v t by (rule AssessPVCDeletion_Retain)
  then have "assessKind ex_handler ?r = Some (Inr emptyAssessment)"
    by (simp add: assessKind_PVC)
  then have "decideByRisk ex_handler ?r
               = allowResponse (req_UID ?r) ''Deletion allowed - safe operation''"
    by (rule decideByRisk_safe) (simp add: emptyAssessment_def)
  then have "handleAdmissionRequest ex_json ex_handler ?r
               = allowResponse ''uid-1'' ''Deletion allowed - safe operation''"
    using handle_delete_no_bypass [of ?r ex_json ex_handler] ex_bypass(6) by simp
  then show ?thesis
    using c p v t messages_without_Retain(1)
    by (simp add: allowResponse_def messageStatus_def PersistentVolumeReclaimRetain_def)
qed

text \<open>
  Claim C5, amended. For every DELETE admission request on a PVC that is Bound to a PV
  whose reclaim policy is Retain, the verdict is allow; the response message is
  "Deletion allowed - safe operation", or "Deletion allowed via bypass label
  pv-safe.io/force-delete" when the prior object carries the bypass label, and neither
  contains "Retain".
\<close>

theorem pvc_delete_on_retain_allowed:
  assumes "req_Operation request = Delete"
    and "req_Kind request = ''PersistentVolumeClaim''"
    and "PersistentVolumeClaims_Get (client (handler_RiskCalculator h))
           (req_Namespace request) (req_Name request) = Inr pvc"
    and "pvc_Phase pvc = ClaimBound"
    and "PersistentVolumes_Get (client (handler_RiskCalculator h)) (pvc_VolumeName pvc) = Inr pv"
    and "pv_PersistentVolumeReclaimPolicy pv = PersistentVolumeReclaimRetain"
  shows "handleAdmissionRequest js h request =
           \<lparr> resp_UID = req_UID request, resp_Allowed = True,
             resp_Result = Some \<lparr> st_Status = '''',
                 st_Message = (if hasBypassLabel js request
                               then ''Deletion allowed via bypass label pv-safe.io/force-delete''
                               else ''Deletion allowed - safe operation''),
                 st_Reason = '''', st_Code = 0 \<rparr> \<rparr>
         \<and> \<not> Contains (if hasBypassLabel js request
                        then ''Deletion allowed via bypass label pv-safe.io/force-delete''
                        else ''Deletion allowed - safe operation'') ''Retain''"
proof (cases "hasBypassLabel js request")
  case True
  with handle_delete_bypass [OF assms(1) True] messages_without_Retain(2) show ?thesis
    by (simp add: allowResponse_def)
next
  case False
  have "AssessPVCDeletion (handler_RiskCalculator h) (req_Namespace request) (req_Name request)
          = Inr emptyAssessment"
    using assms(3,4,5) assms(6) [unfolded PersistentVolumeReclaimRetain_def]
    by (rule AssessPVCDeletion_Retain)
  then have "assessKind h request = Some (Inr emptyAssessment)"
    using assessKind_PVC [OF assms(2)] by simp
  then have "decideByRisk h request
               = allowResponse (req_UID request) ''Deletion allowed - safe operation''"
    by (rule decideByRisk_safe) (simp add: emptyAssessment_def)
  with handle_delete_no_bypass [OF assms(1) False] False messages_without_Retain(1)
  show ?thesis
    by (simp add: allowResponse_def)
qed

text \<open>Deleting \<^verbatim>\<open>prod/web\<close>, bound to the Retain volume \<^verbatim>\<open>pv-1\<close>.\<close>

theorem pvc_delete_on_retain_allowed_witness:
  "req_Operation (ex_request ''PersistentVolumeClaim'' ''prod'' ''web'' None) = Delete
   \<and> PersistentVolumeClaims_Get (client (handler_RiskCalculator ex_handler)) ''prod'' ''web''
       = Inr ex_web
   \<and> pvc_Phase ex_web = ClaimBound
   \<and> PersistentVolumes_Get (client (handler_RiskCalculator ex_handler)) (pvc_VolumeName ex_web)
       = Inr ex_pv1
   \<and> pv_PersistentVolumeReclaimPolicy ex_pv1 = PersistentVolumeReclaimRetain
   \<and> handleAdmissionRequest ex_json ex_handler
         (ex_request ''PersistentVolumeClaim'' ''prod'' ''web'' None) =
       \<lparr> resp_UID = ''uid-1'', resp_Allowed = True,
         resp_Result = Some \<lparr> st_Status = '''',
                              st_Message = ''Deletion allowed - safe operation'',
                              st_Reason = '''', st_Code = 0 \<rparr> \<rparr>"
proof -
  let ?r = "ex_request ''PersistentVolumeClaim'' ''prod'' ''web'' None"
  have o: "req_Operation ?r = Delete" and k: "req_Kind ?r = ''PersistentVolumeClaim''"
    by simp_all
  have c: "PersistentVolumeClaims_Get (client (handler_RiskCalculator ex_handler))
             (req_Namespace ?r) (req_Name ?r) = Inr ex_web"
    by (simp add: ex_get_pvc)
  have p: "pvc_Phase ex_web = ClaimBound" by (simp add: ex_web_def ClaimBound_def)
  have v: "PersistentVolumes_Get (client (handler_RiskCalculator ex_handler))
             (pvc_VolumeName ex_web) = Inr ex_pv1"
    by (simp add: ex_web_def ex_get_pv)
  have t: "pv_PersistentVolumeReclaimPolicy ex_pv1 = PersistentVolumeReclaimRetain"
    by (simp add: ex_pv1_def PersistentVolumeReclaimRetain_def)
  from pvc_delete_on_retain_allowed [OF o k c p v t, of ex_json] ex_bypass(6) [of "''PersistentVolumeClaim''" "''prod''" "''web''"]
    o c p v t
  show ?thesis by simp
qed

subsection \<open>C6: the first ready snapshot with a Retain class\<close>

text \<open>
  Claim C6. When the snapshots of the namespace can be listed, \<^verbatim>\<open>HasReadySnapshot\<close>
  returns the first snapshot of the listing, in list order, whose source PVC name matches,
  whose ready flag is true and whose snapshot class resolves to deletion policy Retain,
  with the \<^verbatim>\<open>SnapshotInfo\<close> built from it; it returns not-found, without error, when
  the listing has no such snapshot. Snapshots before the accepted one, among them ready
  snapshots whose policy is not Retain, are passed over. A snapshot lacking a class
  reference, or whose class lookup fails, gets deletion policy \<^verbatim>\<open>Unknown\<close> and is not
  accepted.
\<close>

theorem HasReadySnapshot_first_ready_retain:
  assumes "volumesnapshots_List (dynamicClient sc) namespace = Inr items"
  shows "HasReadySnapshot sc namespace pvcName =
           (case find (acceptsSnapshot sc pvcName) items of
              None \<Rightarrow> (False, None, None)
            | Some item \<Rightarrow> (True, Some (itemInfo item pvcName ''Retain''), None))
         \<and> (\<forall>item. lacksClassReference item \<or> classLookupFails sc item \<longrightarrow>
               itemDeletionPolicy sc item = ''Unknown'' \<and> \<not> acceptsSnapshot sc pvcName item)"
proof (intro conjI allI impI)
  show "HasReadySnapshot sc namespace pvcName =
           (case find (acceptsSnapshot sc pvcName) items of
              None \<Rightarrow> (False, None, None)
            | Some item \<Rightarrow> (True, Some (itemInfo item pvcName ''Retain''), None))"
    using assms by (simp add: HasReadySnapshot_def HasReadySnapshot_loop_find)
next
  fix item
  assume "lacksClassReference item \<or> classLookupFails sc item"
  then show "itemDeletionPolicy sc item = ''Unknown''"
    using itemDeletionPolicy_Unknown by (simp add: UnknownDeletionPolicy_def)
next
  fix item
  assume "lacksClassReference item \<or> classLookupFails sc item"
  then show "\<not> acceptsSnapshot sc pvcName item"
    by (auto simp: acceptsSnapshot_def classResolvesToRetain_def)
qed

text \<open>
  In namespace \<^verbatim>\<open>staging\<close> the snapshot without a class and the one of the Delete class
  are passed over, and \<^verbatim>\<open>snap-1\<close> is returned, not \<^verbatim>\<open>snap-2\<close>.
\<close>

theorem HasReadySnapshot_first_ready_retain_witness:
  "volumesnapshots_List (dynamicClient ex_checker) ''staging'' = Inr ex_snapshots_staging
   \<and> HasReadySnapshot ex_checker ''staging'' ''c'' =
       (True,
        Some \<lparr> si_Name = ''snap-1'', si_Namespace = ''staging'', si_SourcePVC = ''c'',
               si_IsReady = True, si_DeletionPolicy = ''Retain'', si_CreationTime = 0,
               si_RestoreSize = '''' \<rparr>,
        None)
   \<and> lacksClassReference (snapshotObject ''snap-a'' ''staging'' ''c'' True '''')
   \<and> itemDeletionPolicy ex_checker (snapshotObject ''snap-a'' ''staging'' ''c'' True '''')
       = ''Unknown''"
proof -
  have l: "volumesnapshots_List (dynamicClient ex_checker) ''staging'' = Inr ex_snapshots_staging"
    by (simp add: ex_checker_def ex_dynamic_def)
  have n: "lacksClassReference (snapshotObject ''snap-a'' ''staging'' ''c'' True '''')"
    by (simp add: lacksClassReference_def snapshotObject_def emptyObject_def)
  have f: "find (acceptsSnapshot ex_checker ''c'') ex_snapshots_staging
             = Some (snapshotObject ''snap-1'' ''staging'' ''c'' True ''c1'')"
    by (simp add: ex_snapshots_staging_def acceptsSnapshot_def sourceMatches_def readyFlag_def
        classResolvesToRetain_def lacksClassReference_def classLookupFails_def
        snapshotObject_def emptyObject_def classObject_def ex_checker_def ex_dynamic_def)
  show ?thesis
    using HasReadySnapshot_first_ready_retain [OF l, of "''c''"] l n f
    by (simp add: itemInfo_def snapshotObject_def emptyObject_def)
qed

subsection \<open>C7: an engine error allows the request\<close>

text \<open>
  Claim C7. For every DELETE admission request that reaches the engine (no bypass label,
  kind Namespace, PersistentVolumeClaim or PersistentVolume), if the engine returns an
  error, the verdict is allow with the message "Risk assessment error (allowed): "
  followed by the text of the error. The engine returns such an error when the PVC fetch
  fails, when the PV fetch fails (on the PV path and, for a Bound PVC, on the PVC path) and
  when the PVC list of the namespace fails, and the message then names the object and ends
  with the cause.
\<close>

theorem engine_error_fails_open:
  assumes "req_Operation request = Delete"
    and "\<not> hasBypassLabel js request"
  shows "(\<forall>err. assessKind h request = Some (Inl err) \<longrightarrow>
            handleAdmissionRequest js h request =
              \<lparr> resp_UID = req_UID request, resp_Allowed = True,
                resp_Result = Some \<lparr> st_Status = '''',
                    st_Message = ''Risk assessment error (allowed): '' @ err,
                    st_Reason = '''', st_Code = 0 \<rparr> \<rparr>)
       \<and> (\<forall>cause. req_Kind request = ''PersistentVolumeClaim''
             \<and> PersistentVolumeClaims_Get (client (handler_RiskCalculator h))
                  (req_Namespace request) (req_Name request) = Inl cause \<longrightarrow>
            assessKind h request =
              Some (Inl (''failed to get PVC '' @ req_Namespace request @ ''/''
                           @ req_Name request @ '': '' @ cause)))
       \<and> (\<forall>cause pvc. req_Kind request = ''PersistentVolumeClaim''
             \<and> PersistentVolumeClaims_Get (client (handler_RiskCalculator h))
                  (req_Namespace request) (req_Name request) = Inr pvc
             \<and> pvc_Phase pvc = ClaimBound
             \<and> PersistentVolumes_Get (client (handler_RiskCalculator h)) (pvc_VolumeName pvc)
                  = Inl cause \<longrightarrow>
            assessKind h request =
              Some (Inl (''failed to get PV '' @ pvc_VolumeName pvc @ '': '' @ cause)))
       \<and> (\<forall>cause. req_Kind request = ''PersistentVolume''
             \<and> PersistentVolumes_Get (client (handler_RiskCalculator h)) (req_Name request)
                  = Inl cause \<longrightarrow>
            assessKind h request =
              Some (Inl (''failed to get PV '' @ req_Name request @ '': '' @ cause)))
       \<and> (\<forall>cause. req_Kind request = ''Namespace''
             \<and> PersistentVolumeClaims_List (client (handler_RiskCalculator h))
                  (req_Name request) = Inl cause \<longrightarrow>
            assessKind h request =
              Some (Inl (''failed to list PVCs in namespace '' @ req_Name request @ '': ''
                           @ cause)))"
proof (intro conjI allI impI)
  fix err
  assume "assessKind h request = Some (Inl err)"
  then have "decideByRisk h request =
      allowResponse (req_UID request) (''Risk assessment error (allowed): '' @ err)"
    by (rule decideByRisk_error)
  with handle_delete_no_bypass [OF assms]
  show "handleAdmissionRequest js h request =
          \<lparr> resp_UID = req_UID request, resp_Allowed = True,
            resp_Result = Some \<lparr> st_Status = '''',
                st_Message = ''Risk assessment error (allowed): '' @ err,
                st_Reason = '''', st_Code = 0 \<rparr> \<rparr>"
    by (simp add: allowResponse_def)
next
  fix cause
  assume "req_Kind request = ''PersistentVolumeClaim''
            \<and> PersistentVolumeClaims_Get (client (handler_RiskCalculator h))
                 (req_Namespace request) (req_Name request) = Inl cause"
  then show "assessKind h request =
               Some (Inl (''failed to get PVC '' @ req_Namespace request @ ''/''
                            @ req_Name request @ '': '' @ cause))"
    by (simp add: assessKind_PVC AssessPVCDeletion_def)
next
  fix cause pvc
  assume "req_Kind request = ''PersistentVolumeClaim''
            \<and> PersistentVolumeClaims_Get (client (handler_RiskCalculator h))
                 (req_Namespace request) (req_Name request) = Inr pvc
            \<and> pvc_Phase pvc = ClaimBound
            \<and> PersistentVolumes_Get (client (handler_RiskCalculator h)) (pvc_VolumeName pvc)
                 = Inl cause"
  then show "assessKind h request =
               Some (Inl (''failed to get PV '' @ pvc_VolumeName pvc @ '': '' @ cause))"
    by (simp add: assessKind_PVC AssessPVCDeletion_def)
next
  fix cause
  assume "req_Kind request = ''PersistentVolume''
            \<and> PersistentVolumes_Get (client (handler_RiskCalculator h)) (req_Name request)
                 = Inl cause"
  then show "assessKind h request =
               Some (Inl (''failed to get PV '' @ req_Name request @ '': '' @ cause))"
    by (simp add: assessKind_PV AssessPVDeletion_def)
next
  fix cause
  assume "req_Kind request = ''Namespace''
            \<and> PersistentVolumeClaims_List (client (handler_RiskCalculator h))
                 (req_Name request) = Inl cause"
  then show "assessKind h request =
               Some (Inl (''failed to list PVCs in namespace '' @ req_Name request @ '': ''
                            @ cause))"
    by (simp add: assessKind_Namespace AssessNamespaceDeletion_def)
qed

text \<open>
  Deleting the PVC \<^verbatim>\<open>prod/ghost\<close>, which does not exist, and the namespace \<^verbatim>\<open>down\<close>,
  whose PVCs cannot be listed in time.
\<close>

theorem engine_error_fails_open_witness:
  "req_Operation (ex_request ''PersistentVolumeClaim'' ''prod'' ''ghost'' None) = Delete
   \<and> \<not> hasBypassLabel ex_json (ex_request ''PersistentVolumeClaim'' ''prod'' ''ghost'' None)
   \<and> assessKind ex_handler (ex_request ''PersistentVolumeClaim'' ''prod'' ''ghost'' None)
       = Some (Inl ''failed to get PVC prod/ghost: ghost not found'')
   \<and> handleAdmissionRequest ex_json ex_handler
         (ex_request ''PersistentVolumeClaim'' ''prod'' ''ghost'' None) =
       \<lparr> resp_UID = ''uid-1'', resp_Allowed = True,
         resp_Result = Some \<lparr> st_Status = '''',
             st_Message = ''Risk assessment error (allowed): failed to get PVC prod/ghost: ghost not found'',
             st_Reason = '''', st_Code = 0 \<rparr> \<rparr>
   \<and> handleAdmissionRequest ex_json ex_handler (ex_request ''Namespace'' '''' ''down'' None) =
       \<lparr> resp_UID = ''uid-1'', resp_Allowed = True,
         resp_Result = Some \<lparr> st_Status = '''',
             st_Message = ''Risk assessment error (allowed): failed to list PVCs in namespace down: context deadline exceeded'',
             st_Reason = '''', st_Code = 0 \<rparr> \<rparr>"
proof -
  let ?r = "ex_request ''PersistentVolumeClaim'' ''prod'' ''ghost'' None"
  let ?n = "ex_request ''Namespace'' '''' ''down'' None"
  have o: "req_Operation ?r = Delete" "req_Operation ?n = Delete"
    by simp_all
  have b: "\<not> hasBypassLabel ex_json ?r" "\<not> hasBypassLabel ex_json ?n"
    by (rule ex_bypass)+
  have g: "PersistentVolumeClaims_Get (client (handler_RiskCalculator ex_handler))
             (req_Namespace ?r) (req_Name ?r) = Inl ''ghost not found''"
    by (simp add: ex_get_pvc notFound_def)
  have l: "PersistentVolumeClaims_List (client (handler_RiskCalculator ex_handler))
             (req_Name ?n) = Inl ''context deadline exceeded''"
    by (simp add: ex_list_pvcs)
  from engine_error_fails_open [OF o(1) b(1), of ex_handler]
       engine_error_fails_open [OF o(2) b(2), of ex_handler] o b g l
  show ?thesis by simp
qed

subsection \<open>C8: the namespace verdict does not depend on the listing order\<close>

text \<open>
  Claim C8. For every namespace and every permutation of the PVC list that the list call
  returns, the cluster otherwise the same, \<^verbatim>\<open>AssessNamespaceDeletion\<close> succeeds on both
  listings with the same \<^verbatim>\<open>IsRisky\<close> verdict, and the two risky-PVC lists hold the same
  entries, possibly in a different order.
\<close>

theorem namespace_verdict_order_independent:
  assumes "PersistentVolumeClaims_List (client rc) namespace = Inr pvcs"
    and "mset pvcs' = mset pvcs"
  shows "\<exists>a a'. AssessNamespaceDeletion rc namespace = Inr a
               \<and> AssessNamespaceDeletion (withListing rc namespace pvcs') namespace = Inr a'
               \<and> IsRisky a' = IsRisky a
               \<and> mset (RiskyPVCs a') = mset (RiskyPVCs a)"
proof -
  let ?rc' = "withListing rc namespace pvcs'"
  have l': "PersistentVolumeClaims_List (client ?rc') namespace = Inr pvcs'"
    by (simp add: withListing_def)
  obtain a where a: "AssessNamespaceDeletion rc namespace = Inr a"
    "IsRisky a = (concat (map (pvcEntries rc) pvcs) \<noteq> [])"
    "RiskyPVCs a = concat (map (pvcEntries rc) pvcs)"
    using AssessNamespaceDeletion_entries [OF assms(1)] by blast
  obtain a' where a': "AssessNamespaceDeletion ?rc' namespace = Inr a'"
    "IsRisky a' = (concat (map (pvcEntries ?rc') pvcs') \<noteq> [])"
    "RiskyPVCs a' = concat (map (pvcEntries ?rc') pvcs')"
    using AssessNamespaceDeletion_entries [OF l'] by blast
  have same: "pvcEntries ?rc' = pvcEntries rc"
    by (intro ext) (rule pvcEntries_withListing)
  have m: "mset (RiskyPVCs a') = mset (RiskyPVCs a)"
    using mset_entries [OF assms(2), of rc] by (simp add: a(3) a'(3) same)
  have "(RiskyPVCs a' = []) = (RiskyPVCs a = [])"
    using m by (metis mset_zero_iff)
  then have "IsRisky a' = IsRisky a"
    by (simp add: a(2,3) a'(2,3))
  with a(1) a'(1) m show ?thesis by blast
qed

text \<open>Namespace \<^verbatim>\<open>prod\<close>, listed as \<^verbatim>\<open>web, db\<close> and as \<^verbatim>\<open>db, web\<close>.\<close>

theorem namespace_verdict_order_independent_witness:
  "PersistentVolumeClaims_List (client ex_rc) ''prod'' = Inr [ex_web, ex_db]
   \<and> mset [ex_db, ex_web] = mset [ex_web, ex_db]
   \<and> (\<exists>a a'. AssessNamespaceDeletion ex_rc ''prod'' = Inr a
            \<and> AssessNamespaceDeletion (withListing ex_rc ''prod'' [ex_db, ex_web]) ''prod''
                = Inr a'
            \<and> IsRisky a' = IsRisky a
            \<and> mset (RiskyPVCs a') = mset (RiskyPVCs a))"
proof -
  have l: "PersistentVolumeClaims_List (client ex_rc) ''prod'' = Inr [ex_web, ex_db]"
    by (simp add: ex_list_pvcs)
  have m: "mset [ex_db, ex_web] = mset [ex_web, ex_db]"
    by simp
  from namespace_verdict_order_independent [OF l m] l m show ?thesis
    by blast
qed

subsection \<open>C9: the risky list and the risky flag\<close>

text \<open>
  Claim C9. In every successful result of \<^verbatim>\<open>AssessPVCDeletion\<close> and of
  \<^verbatim>\<open>AssessNamespaceDeletion\<close>, the risky-PVC list is non-empty if and only if the
  \<^verbatim>\<open>IsRisky\<close> flag is true.
\<close>

theorem risky_list_nonempty_iff_risky:
  "(AssessPVCDeletion rc namespace name = Inr a \<longrightarrow> (RiskyPVCs a \<noteq> [] \<longleftrightarrow> IsRisky a))
   \<and> (AssessNamespaceDeletion rc namespace' = Inr b \<longrightarrow> (RiskyPVCs b \<noteq> [] \<longleftrightarrow> IsRisky b))"
proof (intro conjI impI)
  assume "AssessPVCDeletion rc namespace name = Inr a"
  then show "RiskyPVCs a \<noteq> [] \<longleftrightarrow> IsRisky a"
    by (auto simp: AssessPVCDeletion_def Let_def split: sum.splits if_splits prod.splits)
next
  assume b: "AssessNamespaceDeletion rc namespace' = Inr b"
  show "RiskyPVCs b \<noteq> [] \<longleftrightarrow> IsRisky b"
  proof (cases "PersistentVolumeClaims_List (client rc) namespace'")
    case (Inl err)
    with b show ?thesis by (simp add: AssessNamespaceDeletion_def)
  next
    case (Inr pvcs)
    from AssessNamespaceDeletion_entries [OF Inr] b show ?thesis by auto
  qed
qed

text \<open>Deleting \<^verbatim>\<open>prod/db\<close> is risky with one entry; namespace \<^verbatim>\<open>lost\<close> is not risky with
  none.\<close>

theorem risky_list_nonempty_iff_risky_witness:
  "AssessPVCDeletion ex_rc ''prod'' ''db'' = Inr ex_db_assessment
   \<and> (RiskyPVCs ex_db_assessment \<noteq> [] \<longleftrightarrow> IsRisky ex_db_assessment)
   \<and> IsRisky ex_db_assessment
   \<and> AssessNamespaceDeletion ex_rc ''lost'' = Inr emptyAssessment
   \<and> (RiskyPVCs emptyAssessment \<noteq> [] \<longleftrightarrow> IsRisky emptyAssessment)
   \<and> \<not> IsRisky emptyAssessment"
  using risky_list_nonempty_iff_risky
          [of ex_rc "''prod''" "''db''" ex_db_assessment "''lost''" emptyAssessment]
        ex_assess_db ex_assess_lost
  by (simp add: ex_db_assessment_def emptyAssessment_def)

subsection \<open>C10: a request without prior-object bytes or without labels\<close>

text \<open>
  Claim C10. For every DELETE admission request whose envelope carries no prior-object
  bytes, or whose prior object parses and has no labels, the bypass check answers false
  (it returns a boolean and has no error result), and the response is the one the risk
  assessment decides. That response is a denial only when the engine assessed the deletion
  as risky, and an HTTP exchange that delivers the request gets the written review with
  that response, or status 500 when, and only when, the encoder of the response fails;
  never a 4xx reply.
\<close>

theorem missing_prior_object_is_no_bypass:
  assumes "req_Operation request = Delete"
    and "req_OldObject_Raw request = None
         \<or> (\<exists>raw obj. req_OldObject_Raw request = Some raw
                \<and> Unmarshal_Unstructured js raw = Inr obj
                \<and> (GetLabels obj = None \<or> GetLabels obj = Some Map.empty))"
  shows "\<not> hasBypassLabel js request
       \<and> handleAdmissionRequest js h request = decideByRisk h request
       \<and> (\<not> resp_Allowed (handleAdmissionRequest js h request) \<longrightarrow>
            (\<exists>a. assessKind h request = Some (Inr a) \<and> IsRisky a))
       \<and> (\<forall>r body review.
             http_Method r = ''POST'' \<and> http_Body r = Inr body
             \<and> Unmarshal_AdmissionReview js body = Inr review
             \<and> rev_Request review = Some request \<longrightarrow>
             ServeHTTP js h r =
               (case Marshal_AdmissionReview js
                       \<lparr> rev_APIVersion = ''admission.k8s.io/v1'',
                         rev_Kind = ''AdmissionReview'', rev_Request = None,
                         rev_Response = Some (decideByRisk h request) \<rparr> of
                  Inl err \<Rightarrow> http_Error ''Error creating response'' 500
                | Inr responseBytes \<Rightarrow> http_Write responseBytes))"
proof -
  have no: "\<not> hasBypassLabel js request"
    using assms(2) by (auto simp: hasBypassLabel_def)
  have eq: "handleAdmissionRequest js h request = decideByRisk h request"
    using assms(1) no by (rule handle_delete_no_bypass)
  have deny: "\<not> resp_Allowed (handleAdmissionRequest js h request) \<longrightarrow>
                (\<exists>a. assessKind h request = Some (Inr a) \<and> IsRisky a)"
    unfolding eq using decideByRisk_denied by blast
  have http: "ServeHTTP js h r =
               (case Marshal_AdmissionReview js
                       \<lparr> rev_APIVersion = ''admission.k8s.io/v1'',
                         rev_Kind = ''AdmissionReview'', rev_Request = None,
                         rev_Response = Some (decideByRisk h request) \<rparr> of
                  Inl err \<Rightarrow> http_Error ''Error creating response'' 500
                | Inr responseBytes \<Rightarrow> http_Write responseBytes)"
    if "http_Method r = ''POST'' \<and> http_Body r = Inr body
          \<and> Unmarshal_AdmissionReview js body = Inr review
          \<and> rev_Request review = Some request" for r body review
    using that by (simp add: ServeHTTP_def eq Let_def)
  from no eq deny http show ?thesis by blast
qed

text \<open>
  The review that asks to delete \<^verbatim>\<open>prod/db\<close> carries no prior object: the reply is the
  written review, and the denial in it comes from the engine. The same deletion with a
  prior object that has no labels is decided by the risk assessment as well.
\<close>

theorem missing_prior_object_is_no_bypass_witness:
  "req_Operation (ex_request ''PersistentVolumeClaim'' ''prod'' ''db'' None) = Delete
   \<and> req_OldObject_Raw (ex_request ''PersistentVolumeClaim'' ''prod'' ''db'' None) = None
   \<and> \<not> hasBypassLabel ex_json (ex_request ''PersistentVolumeClaim'' ''prod'' ''db'' None)
   \<and> assessKind ex_handler (ex_request ''PersistentVolumeClaim'' ''prod'' ''db'' None)
       = Some (Inr ex_db_assessment)
   \<and> IsRisky ex_db_assessment
   \<and> ServeHTTP ex_json ex_handler
         \<lparr> http_Method = ''POST'', http_Body = Inr ''<delete pvc prod/db>'' \<rparr>
       = http_Write ''<denied>''
   \<and> Unmarshal_Unstructured ex_json ''<no labels>'' = Inr emptyObject
   \<and> GetLabels emptyObject = None
   \<and> handleAdmissionRequest ex_json ex_handler
         (ex_request ''PersistentVolumeClaim'' ''prod'' ''db'' (Some ''<no labels>''))
       = decideByRisk ex_handler
           (ex_request ''PersistentVolumeClaim'' ''prod'' ''db'' (Some ''<no labels>''))"
proof -
  let ?r = "ex_request ''PersistentVolumeClaim'' ''prod'' ''db'' None"
  let ?s = "ex_request ''PersistentVolumeClaim'' ''prod'' ''db'' (Some ''<no labels>'')"
  let ?http = "\<lparr> http_Method = ''POST'', http_Body = Inr ''<delete pvc prod/db>'' \<rparr>"
  have o: "req_Operation ?r = Delete" "req_Operation ?s = Delete" by simp_all
  have u: "Unmarshal_Unstructured ex_json ''<no labels>'' = Inr emptyObject"
    by (simp add: ex_json_def)
  have g: "GetLabels emptyObject = None" by (simp add: emptyObject_def)
  have n: "req_OldObject_Raw ?r = None
           \<or> (\<exists>raw obj. req_OldObject_Raw ?r = Some raw
                  \<and> Unmarshal_Unstructured ex_json raw = Inr obj
                  \<and> (GetLabels obj = None \<or> GetLabels obj = Some Map.empty))"
    by simp
  have m: "req_OldObject_Raw ?s = None
           \<or> (\<exists>raw obj. req_OldObject_Raw ?s = Some raw
                  \<and> Unmarshal_Unstructured ex_json raw = Inr obj
                  \<and> (GetLabels obj = None \<or> GetLabels obj = Some Map.empty))"
    using u g by simp
  have k: "assessKind ex_handler ?r = Some (Inr ex_db_assessment)"
    by (simp add: assessKind_PVC ex_assess_db)
  have risky: "IsRisky ex_db_assessment" by (simp add: ex_db_assessment_def)
  have d: "decideByRisk ex_handler ?r
             = denyResponse (req_UID ?r) (Message ex_db_assessment @ Suggestion ex_db_assessment)"
    using k risky by (rule decideByRisk_risky)
  have w: "http_Method ?http = ''POST'' \<and> http_Body ?http = Inr ''<delete pvc prod/db>''
           \<and> Unmarshal_AdmissionReview ex_json ''<delete pvc prod/db>''
               = Inr \<lparr> rev_APIVersion = ''admission.k8s.io/v1'',
                       rev_Kind = ''AdmissionReview'', rev_Request = Some ?r,
                       rev_Response = None \<rparr>
           \<and> rev_Request \<lparr> rev_APIVersion = ''admission.k8s.io/v1'',
                           rev_Kind = ''AdmissionReview'', rev_Request = Some ?r,
                           rev_Response = None \<rparr> = Some ?r"
    by (simp add: ex_json_def)
  have e: "Marshal_AdmissionReview ex_json
             \<lparr> rev_APIVersion = ''admission.k8s.io/v1'', rev_Kind = ''AdmissionReview'',
               rev_Request = None, rev_Response = Some (decideByRisk ex_handler ?r) \<rparr>
           = Inr ''<denied>''"
    unfolding d by (simp add: ex_json_def denyResponse_def)
  from missing_prior_object_is_no_bypass [OF o(1) n, of ex_handler]
  have 1: "\<not> hasBypassLabel ex_json ?r"
    and 2: "\<forall>r body review.
             http_Method r = ''POST'' \<and> http_Body r = Inr body
             \<and> Unmarshal_AdmissionReview ex_json body = Inr review
             \<and> rev_Request review = Some ?r \<longrightarrow>
             ServeHTTP ex_json ex_handler r =
               (case Marshal_AdmissionReview ex_json
                       \<lparr> rev_APIVersion = ''admission.k8s.io/v1'',
                         rev_Kind = ''AdmissionReview'', rev_Request = None,
                         rev_Response = Some (decideByRisk ex_handler ?r) \<rparr> of
                  Inl err \<Rightarrow> http_Error ''Error creating response'' 500
                | Inr responseBytes \<Rightarrow> http_Write responseBytes)"
    by blast+
  from 2 w have 3: "ServeHTTP ex_json ex_handler ?http = http_Write ''<denied>''"
    unfolding e by (metis (no_types, lifting) sum.case(2))
  from missing_prior_object_is_no_bypass [OF o(2) m, of ex_handler]
  have 4: "handleAdmissionRequest ex_json ex_handler ?s = decideByRisk ex_handler ?s"
    by blast
  from o(1) 1 k risky 3 u g 4 show ?thesis by simp
qed

end
